theory Spec2Isabelle
  imports Main
begin

section \<open>Documents (package models)\<close>

text \<open>
  The structs of package \<open>models\<close>. Go's \<open>int\<close> fields are compared only, never
  computed with, so they are mathematical integers here. A pointer field
  (\<open>*string\<close>, \<open>*Ranking\<close>) is an option: \<open>None\<close> is \<open>nil\<close>, the field left out of the
  stored document. The slice \<open>Genre\<close> is an option too, because the validator tells a nil
  slice (the field left out of a request body) from an empty one.
\<close>

record genre =
  GenreID :: int
  GenreName :: string

record ranking =
  RankingValue :: int
  RankingName :: string

record movie =
  MovieID :: string
  ImdbID :: string
  Title :: string
  PosterPath :: string
  YouTubeID :: string
  Genre :: "genre list option"
  AdminReview :: "string option"
  Ranking :: "ranking option"

text \<open>
  Modelled from the spec: \<open>models.User\<close>, \<open>models.UserLogin\<close> and \<open>models.UserResponse\<close>
  are declared in a file that is not among the sources. The fields are the ones the
  controllers read and write, together with the stored token pair of the data model.
\<close>

record user =
  UserID :: string
  FirstName :: string
  LastName :: string
  Email :: string
  Password :: string
  Role :: string
  CreatedAt :: nat
  UpdatedAt :: nat
  Token :: string
  RefreshToken :: string
  FavouriteGenres :: "genre list"

record user_login =
  login_Email :: string
  login_Password :: string

record user_response =
  resp_UserID :: string
  resp_FirstName :: string
  resp_LastName :: string
  resp_Email :: string
  resp_Role :: string
  resp_FavouriteGenres :: "genre list"
  resp_Token :: string
  resp_RefreshToken :: string

text \<open>The zero value of \<open>var user models.User\<close>.\<close>

definition zero_user :: user where
  "zero_user = \<lparr>UserID = [], FirstName = [], LastName = [], Email = [], Password = [],
     Role = [], CreatedAt = 0, UpdatedAt = 0, Token = [], RefreshToken = [],
     FavouriteGenres = []\<rparr>"

text \<open>The anonymous struct \<open>req\<close> of \<open>AdminReviewUpdate\<close>.\<close>

record review_request =
  req_AdminReview :: string
  req_Rating :: int

text \<open>The two collections, \<open>"User"\<close> and \<open>"Movie"\<close>, in store order.\<close>

record store =
  Users :: "user list"
  Movies :: "movie list"

section \<open>HTTP responses\<close>

text \<open>
  One constructor for each shape of JSON object that a handler passes to \<open>c.JSON\<close>.
  \<open>ValidationBody\<close> is \<open>{"error": "Validation failed", "details": ...}\<close>; its details are
  the (field, tag) pairs the validator reports.
\<close>

datatype json =
    ErrorBody string
  | ValidationBody "(string \<times> string) list"
  | MessageBody string
  | MoviesBody "movie list"
  | TopRatedBody "movie list" nat int
  | GenreBody "movie list" string nat
  | RecommendedBody "movie list" "string list" nat
  | NoFavouritesBody string "movie list" "string list"
  | ReviewBody string string int string
  | RegisteredBody string string string string string "genre list"
  | LoginBody user_response

record response =
  status :: nat
  body :: json

definition JSON :: "nat \<Rightarrow> json \<Rightarrow> response" where
  "JSON code obj = \<lparr>status = code, body = obj\<rparr>"

text \<open>The movies a response carries (none for an error or a message).\<close>

fun movies_of :: "json \<Rightarrow> movie list" where
  "movies_of (MoviesBody ms) = ms"
| "movies_of (TopRatedBody ms n k) = ms"
| "movies_of (GenreBody ms g n) = ms"
| "movies_of (RecommendedBody ms gs n) = ms"
| "movies_of (NoFavouritesBody t ms gs) = ms"
| "movies_of other = []"

section \<open>The environment of a request\<close>

text \<open>
  Everything a handler calls that is not in the repository is a field of the environment:
  \<^item> for each driver call, the error it returns, if any (\<open>None\<close>: the call succeeds);
  \<^item> the bcrypt primitives, the token utilities, the validator's verdict on the \<open>User\<close>
    struct (whose tags are not among the sources), its \<open>url\<close> check and the text of its
    errors, as functions;
  \<^item> the fresh object id and the clock reading used by a registration;
  \<^item> the regular-expression match of the genre query.

  A failed \<open>FindOne(...).Decode(&user)\<close> is either a failure of the lookup itself, which
  leaves \<open>user\<close> untouched, or a failure to decode the document that was found. The
  decoder fills the struct element by element and returns at the first element it cannot
  decode, so the fields decoded before it stay filled: a \<open>DecodeFailure\<close> carries the
  error text and those fields.
\<close>

datatype user_field =
    F_UserID | F_FirstName | F_LastName | F_Email | F_Password | F_Role
  | F_CreatedAt | F_UpdatedAt | F_Token | F_RefreshToken | F_FavouriteGenres

datatype lookup_fault = StoreFailure string | DecodeFailure string "user_field list"

record env =
  find_error :: "string option"
  all_error :: "string option"
  find_one_error :: "lookup_fault option"
  count_error :: "string option"
  insert_error :: "string option"
  update_error :: "string option"
  update_tokens_error :: "string option"
  bcrypt_generate :: "string \<Rightarrow> string + string"
  bcrypt_matches :: "string \<Rightarrow> string \<Rightarrow> bool"
  GenerateAccessToken :: "string \<Rightarrow> string \<Rightarrow> string \<Rightarrow> string \<Rightarrow> string \<Rightarrow> string + string"
  GenerateRefreshToken :: "string \<Rightarrow> string \<Rightarrow> string \<Rightarrow> string \<Rightarrow> string \<Rightarrow> string + string"
  validate_user :: "user \<Rightarrow> (string \<times> string) list"
  is_url :: "string \<Rightarrow> bool"
  violations_text :: "(string \<times> string) list \<Rightarrow> string"
  new_object_id :: string
  now :: nat
  regex_match :: "string \<Rightarrow> string \<Rightarrow> bool"

section \<open>The channel race\<close>

text \<open>
  A worker goroutine sends exactly one message: a value on its result channel or an error
  on \<open>errorChan\<close>. Both channels have a buffer of one, so the send never blocks.
\<close>

datatype 'a message = Sent 'a | Failed string

text \<open>
  The \<open>select\<close> of a handler has three arms: the result channel, \<open>errorChan\<close> and
  \<open>time.After(10 * time.Second)\<close>. Which arm becomes ready first is decided by the
  scheduler and the clock; it is an input of the model.
\<close>

datatype race = WorkerFirst | TimerFirst

definition select_first ::
  "race \<Rightarrow> 'a message \<Rightarrow> ('a \<Rightarrow> response) \<Rightarrow> (string \<Rightarrow> response) \<Rightarrow> response \<Rightarrow> response" where
  "select_first r m on_value on_error on_timeout =
     (case r of
        TimerFirst \<Rightarrow> on_timeout
      | WorkerFirst \<Rightarrow> (case m of Sent v \<Rightarrow> on_value v | Failed e \<Rightarrow> on_error e))"

text \<open>
  What a handler run leaves behind: the response, the store (a worker that lost the race
  still runs to its end), whether the handler started a worker goroutine, and the driver
  calls the handler made on its own goroutine. \<open>answer\<close> is a response sent before any
  driver call and before any \<open>go\<close> statement; \<open>raced\<close> is the response of a \<open>select\<close>
  over the channels of a started worker.
\<close>

record result =
  resp :: response
  store_after :: store
  spawned :: bool
  inline_calls :: "string list"

definition answer :: "store \<Rightarrow> nat \<Rightarrow> json \<Rightarrow> result" where
  "answer st code obj =
     \<lparr>resp = JSON code obj, store_after = st, spawned = False, inline_calls = []\<rparr>"

definition raced :: "store \<Rightarrow> response \<Rightarrow> result" where
  "raced st rsp = \<lparr>resp = rsp, store_after = st, spawned = True, inline_calls = []\<rparr>"

section \<open>The driver: filtered reads with sort and limit\<close>

definition rank_key :: "movie \<Rightarrow> int option" where
  "rank_key m = map_option RankingValue (Ranking m)"

text \<open>The order of the sort key: a missing field sorts below every number.\<close>

fun key_le :: "int option \<Rightarrow> int option \<Rightarrow> bool" where
  "key_le None k = True"
| "key_le (Some a) None = False"
| "key_le (Some a) (Some b) = (a \<le> b)"

fun place_desc :: "movie \<Rightarrow> movie list \<Rightarrow> movie list" where
  "place_desc m [] = [m]"
| "place_desc m (x # xs) =
     (if key_le (rank_key x) (rank_key m) then m # x # xs else x # place_desc m xs)"

text \<open>
  \<open>SetSort(bson.D{{"ranking.ranking_value", -1}})\<close>: descending by ranking value. Documents
  with equal keys keep their store order here.
\<close>

definition sort_rank_desc :: "movie list \<Rightarrow> movie list" where
  "sort_rank_desc ms = foldr place_desc ms []"

definition apply_limit :: "nat option \<Rightarrow> 'a list \<Rightarrow> 'a list" where
  "apply_limit lim xs = (case lim of None \<Rightarrow> xs | Some n \<Rightarrow> take n xs)"

text \<open>\<open>Collection.Find\<close> returns a cursor over the matching documents, or an error.\<close>

definition Find ::
  "env \<Rightarrow> movie list \<Rightarrow> (movie \<Rightarrow> bool) \<Rightarrow> bool \<Rightarrow> nat option \<Rightarrow> string + movie list" where
  "Find e coll flt by_rank lim =
     (case find_error e of
        Some msg \<Rightarrow> Inl msg
      | None \<Rightarrow> Inr (apply_limit lim ((if by_rank then sort_rank_desc else id) (filter flt coll))))"

definition cursor_All :: "env \<Rightarrow> movie list \<Rightarrow> string + movie list" where
  "cursor_All e cur = (case all_error e of Some msg \<Rightarrow> Inl msg | None \<Rightarrow> Inr cur)"

text \<open>The body shared by the reading goroutines: \<open>Find\<close>, then \<open>cursor.All\<close>.\<close>

definition find_worker ::
  "env \<Rightarrow> movie list \<Rightarrow> (movie \<Rightarrow> bool) \<Rightarrow> bool \<Rightarrow> nat option \<Rightarrow> movie list message" where
  "find_worker e coll flt by_rank lim =
     (case Find e coll flt by_rank lim of
        Inl msg \<Rightarrow> Failed msg
      | Inr cur \<Rightarrow> (case cursor_All e cur of Inl msg \<Rightarrow> Failed msg | Inr ms \<Rightarrow> Sent ms))"

text \<open>\<open>{"ranking.ranking_value": {"$gte": n}}\<close>: no match when the ranking is missing.\<close>

definition rank_gte :: "int \<Rightarrow> movie \<Rightarrow> bool" where
  "rank_gte n m = (case Ranking m of None \<Rightarrow> False | Some rk \<Rightarrow> n \<le> RankingValue rk)"

text \<open>\<open>{"genre.genre_name": {"$in": names}}\<close>: some element of the array has such a name.\<close>

definition genres_of :: "movie \<Rightarrow> genre list" where
  "genres_of m = (case Genre m of None \<Rightarrow> [] | Some gs \<Rightarrow> gs)"

definition genre_in :: "string list \<Rightarrow> movie \<Rightarrow> bool" where
  "genre_in names m = list_ex (\<lambda>g. GenreName g \<in> set names) (genres_of m)"

definition genre_regex :: "env \<Rightarrow> string \<Rightarrow> movie \<Rightarrow> bool" where
  "genre_regex e pat m = list_ex (\<lambda>g. regex_match e pat (GenreName g)) (genres_of m)"

definition timeout_response :: response where
  "timeout_response = JSON 408 (ErrorBody ''request timeout'')"

section \<open>Movie handlers\<close>

definition GetMovies :: "env \<Rightarrow> race \<Rightarrow> store \<Rightarrow> result" where
  "GetMovies e r st =
     raced st (select_first r (find_worker e (Movies st) (\<lambda>m. True) False None)
       (\<lambda>ms. JSON 200 (MoviesBody ms))
       (\<lambda>msg. JSON 500 (ErrorBody msg))
       timeout_response)"

definition GetMovie :: "env \<Rightarrow> race \<Rightarrow> store \<Rightarrow> string \<Rightarrow> result" where
  "GetMovie e r st imdb =
     raced st (select_first r (find_worker e (Movies st) (\<lambda>m. ImdbID m = imdb) False None)
       (\<lambda>ms. JSON 200 (MoviesBody ms))
       (\<lambda>msg. JSON 500 (ErrorBody msg))
       timeout_response)"

definition GetTopRatedMovies :: "env \<Rightarrow> race \<Rightarrow> store \<Rightarrow> result" where
  "GetTopRatedMovies e r st =
     raced st (select_first r (find_worker e (Movies st) (rank_gte 7) True (Some 20))
       (\<lambda>ms. JSON 200 (TopRatedBody ms (length ms) 7))
       (\<lambda>msg. JSON 500 (ErrorBody msg))
       timeout_response)"

definition GetMoviesByGenre :: "env \<Rightarrow> race \<Rightarrow> store \<Rightarrow> string \<Rightarrow> result" where
  "GetMoviesByGenre e r st genreName =
     (if genreName = [] then answer st 400 (ErrorBody ''Genre parameter required'')
      else raced st (select_first r
             (find_worker e (Movies st) (genre_regex e genreName) False (Some 20))
             (\<lambda>ms. JSON 200 (GenreBody ms genreName (length ms)))
             (\<lambda>msg. JSON 500 (ErrorBody msg))
             timeout_response))"

subsection \<open>The tags of \<open>models.Movie\<close>\<close>

text \<open>
  \<open>movieValidate.Struct(movie)\<close> checks the \<open>validate\<close> tags of \<open>Movie\<close>, field by field in
  the order of the declaration, and reports for each field the first tag that fails:
  \<^item> \<open>required\<close> fails on the empty string, on the number 0 and on a nil slice;
  \<^item> \<open>min\<close> and \<open>max\<close> on a string bound its number of runes;
  \<^item> \<open>dive\<close> checks every element of the slice against the tags of \<open>Genre\<close>;
  \<^item> a struct behind a pointer that is not nil (\<open>Ranking\<close>) is checked against its own
    tags; \<open>AdminReview\<close> and the object id carry no tag.
  A violation is the pair of the field's name and the failing tag.
\<close>

text \<open>The runes of a UTF-8 string: every byte that is not a continuation byte.\<close>

definition rune_count :: "string \<Rightarrow> nat" where
  "rune_count s = length (filter (\<lambda>c. (of_char c :: nat) div 64 \<noteq> 2) s)"

definition required_string :: "string \<Rightarrow> string \<Rightarrow> (string \<times> string) list" where
  "required_string field s = (if s = [] then [(field, ''required'')] else [])"

definition bounded_string :: "string \<Rightarrow> string \<Rightarrow> nat \<Rightarrow> nat \<Rightarrow> (string \<times> string) list" where
  "bounded_string field s lo hi =
     (if s = [] then [(field, ''required'')]
      else if rune_count s < lo then [(field, ''min'')]
      else if hi < rune_count s then [(field, ''max'')]
      else [])"

definition validate_genre :: "genre \<Rightarrow> (string \<times> string) list" where
  "validate_genre g =
     (if GenreID g = 0 then [(''GenreID'', ''required'')] else []) @
     bounded_string ''GenreName'' (GenreName g) 2 100"

definition validate_ranking :: "ranking \<Rightarrow> (string \<times> string) list" where
  "validate_ranking rk =
     (if RankingValue rk = 0 then [(''RankingValue'', ''required'')] else []) @
     required_string ''RankingName'' (RankingName rk)"

definition validate_movie :: "env \<Rightarrow> movie \<Rightarrow> (string \<times> string) list" where
  "validate_movie e m =
     required_string ''ImdbID'' (ImdbID m) @
     bounded_string ''Title'' (Title m) 2 500 @
     (if PosterPath m = [] then [(''PosterPath'', ''required'')]
      else if \<not> is_url e (PosterPath m) then [(''PosterPath'', ''url'')]
      else []) @
     required_string ''YouTubeID'' (YouTubeID m) @
     (case Genre m of
        None \<Rightarrow> [(''Genre'', ''required'')]
      | Some gs \<Rightarrow> concat (map validate_genre gs)) @
     (case Ranking m of None \<Rightarrow> [] | Some rk \<Rightarrow> validate_ranking rk)"

text \<open>\<open>InsertOne\<close> appends the document, or fails and leaves the collection as it was.\<close>

definition InsertOne :: "env \<Rightarrow> 'a list \<Rightarrow> 'a \<Rightarrow> string + 'a list" where
  "InsertOne e coll doc =
     (case insert_error e of Some msg \<Rightarrow> Inl msg | None \<Rightarrow> Inr (coll @ [doc]))"

definition MakeMovies :: "env \<Rightarrow> race \<Rightarrow> store \<Rightarrow> movie option \<Rightarrow> result" where
  "MakeMovies e r st bound =
     (case bound of
        None \<Rightarrow> answer st 400 (ErrorBody ''Invalid JSON'')
      | Some m \<Rightarrow>
          (case validate_movie e m of
             v # vs \<Rightarrow> answer st 400 (ValidationBody (v # vs))
           | [] \<Rightarrow>
               (case InsertOne e (Movies st) m of
                  Inl msg \<Rightarrow>
                    raced st (select_first r (Failed msg :: bool message)
                      (\<lambda>ok. JSON 201 (MessageBody ''Movie created successfully''))
                      (\<lambda>msg. JSON 500 (ErrorBody msg))
                      timeout_response)
                | Inr ms \<Rightarrow>
                    raced (st\<lparr>Movies := ms\<rparr>) (select_first r (Sent True)
                      (\<lambda>ok. JSON 201 (MessageBody ''Movie created successfully''))
                      (\<lambda>msg. JSON 500 (ErrorBody msg))
                      timeout_response))))"

subsection \<open>The admin review\<close>

text \<open>
  The tags of \<open>req\<close>: \<open>AdminReview\<close> is \<open>required\<close> (not the empty string); \<open>Rating\<close> is
  \<open>required,min=1,max=10\<close> (\<open>required\<close> fails on the zero value; the first failing tag of a
  field is the one reported).
\<close>

definition validate_req :: "review_request \<Rightarrow> (string \<times> string) list" where
  "validate_req q =
     (if req_AdminReview q = [] then [(''AdminReview'', ''required'')] else []) @
     (if req_Rating q = 0 then [(''Rating'', ''required'')]
      else if req_Rating q < 1 then [(''Rating'', ''min'')]
      else if 10 < req_Rating q then [(''Rating'', ''max'')]
      else [])"

definition getRatingName :: "int \<Rightarrow> string" where
  "getRatingName rating =
     (if rating \<ge> 9 then ''excellent''
      else if rating \<ge> 7 then ''good''
      else if rating \<ge> 5 then ''average''
      else if rating \<ge> 3 then ''poor''
      else ''terrible'')"

text \<open>
  The threshold table as the specification words it: the first row whose threshold the
  rating reaches gives the name, and \<open>"terrible"\<close> is the name when no row applies.
\<close>

definition threshold_table :: "(int \<times> string) list" where
  "threshold_table = [(9, ''excellent''), (7, ''good''), (5, ''average''), (3, ''poor'')]"

definition table_name :: "int \<Rightarrow> string" where
  "table_name rating =
     (case find (\<lambda>row. fst row \<le> rating) threshold_table of
        Some row \<Rightarrow> snd row
      | None \<Rightarrow> ''terrible'')"

text \<open>
  \<open>UpdateOne\<close> changes the first document that matches the filter and reports how many
  matched (0 or 1).
\<close>

fun update_first :: "('a \<Rightarrow> bool) \<Rightarrow> ('a \<Rightarrow> 'a) \<Rightarrow> 'a list \<Rightarrow> nat \<times> 'a list" where
  "update_first p f [] = (0, [])"
| "update_first p f (x # xs) =
     (if p x then (1, f x # xs)
      else (case update_first p f xs of (n, ys) \<Rightarrow> (n, x # ys)))"

definition UpdateOne ::
  "env \<Rightarrow> 'a list \<Rightarrow> ('a \<Rightarrow> bool) \<Rightarrow> ('a \<Rightarrow> 'a) \<Rightarrow> string + (nat \<times> 'a list)" where
  "UpdateOne e coll flt upd =
     (case update_error e of Some msg \<Rightarrow> Inl msg | None \<Rightarrow> Inr (update_first flt upd coll))"

definition set_review :: "string \<Rightarrow> int \<Rightarrow> string \<Rightarrow> movie \<Rightarrow> movie" where
  "set_review review rating rankingName m =
     m\<lparr>AdminReview := Some review,
       Ranking := Some \<lparr>RankingValue = rating, RankingName = rankingName\<rparr>\<rparr>"

definition AdminReviewUpdate :: "env \<Rightarrow> store \<Rightarrow> string \<Rightarrow> review_request option \<Rightarrow> result" where
  "AdminReviewUpdate e st movieId bound =
     (if movieId = [] then answer st 400 (ErrorBody ''Movie ID required'')
      else case bound of
        None \<Rightarrow> answer st 400 (ErrorBody ''Invalid request data'')
      | Some q \<Rightarrow>
          (case validate_req q of
             v # vs \<Rightarrow> answer st 400 (ValidationBody (v # vs))
           | [] \<Rightarrow>
               (let rankingName = getRatingName (req_Rating q) in
                case UpdateOne e (Movies st) (\<lambda>m. ImdbID m = movieId)
                       (set_review (req_AdminReview q) (req_Rating q) rankingName) of
                  Inl msg \<Rightarrow>
                    \<lparr>resp = JSON 500 (ErrorBody ''Failed to update movie''), store_after = st,
                     spawned = False, inline_calls = [''UpdateOne'']\<rparr>
                | Inr (matched, ms) \<Rightarrow>
                    \<lparr>resp = (if matched = 0 then JSON 404 (ErrorBody ''Movie not found'')
                             else JSON 200 (ReviewBody ''Review updated successfully''
                                    (req_AdminReview q) (req_Rating q) rankingName)),
                     store_after = st\<lparr>Movies := ms\<rparr>,
                     spawned = False, inline_calls = [''UpdateOne'']\<rparr>)))"

subsection \<open>Recommendations\<close>

datatype find_err = ErrNoDocuments | DriverError string

text \<open>One field of the document, copied into the target.\<close>

fun decode_field :: "user \<Rightarrow> user \<Rightarrow> user_field \<Rightarrow> user" where
  "decode_field doc t F_UserID = t\<lparr>UserID := UserID doc\<rparr>"
| "decode_field doc t F_FirstName = t\<lparr>FirstName := FirstName doc\<rparr>"
| "decode_field doc t F_LastName = t\<lparr>LastName := LastName doc\<rparr>"
| "decode_field doc t F_Email = t\<lparr>Email := Email doc\<rparr>"
| "decode_field doc t F_Password = t\<lparr>Password := Password doc\<rparr>"
| "decode_field doc t F_Role = t\<lparr>Role := Role doc\<rparr>"
| "decode_field doc t F_CreatedAt = t\<lparr>CreatedAt := CreatedAt doc\<rparr>"
| "decode_field doc t F_UpdatedAt = t\<lparr>UpdatedAt := UpdatedAt doc\<rparr>"
| "decode_field doc t F_Token = t\<lparr>Token := Token doc\<rparr>"
| "decode_field doc t F_RefreshToken = t\<lparr>RefreshToken := RefreshToken doc\<rparr>"
| "decode_field doc t F_FavouriteGenres = t\<lparr>FavouriteGenres := FavouriteGenres doc\<rparr>"

definition decode_fields :: "user \<Rightarrow> user_field list \<Rightarrow> user \<Rightarrow> user" where
  "decode_fields doc fs target = foldl (decode_field doc) target fs"

text \<open>
  \<open>FindOne(...).Decode(&target)\<close>. On success the target holds the first matching
  document. When the lookup itself fails the target is left as it was; with no matching
  document the error is \<open>ErrNoDocuments\<close>; when the document that was found does not decode,
  the target keeps the fields decoded before the error.
\<close>

definition FindOneDecode ::
  "env \<Rightarrow> user list \<Rightarrow> (user \<Rightarrow> bool) \<Rightarrow> user \<Rightarrow> find_err option \<times> user" where
  "FindOneDecode e coll flt target =
     (case find_one_error e of
        Some (StoreFailure msg) \<Rightarrow> (Some (DriverError msg), target)
      | Some (DecodeFailure msg fs) \<Rightarrow>
          (case find flt coll of
             None \<Rightarrow> (Some ErrNoDocuments, target)
           | Some doc \<Rightarrow> (Some (DriverError msg), decode_fields doc fs target))
      | None \<Rightarrow>
          (case find flt coll of
             None \<Rightarrow> (Some ErrNoDocuments, target)
           | Some u \<Rightarrow> (None, u)))"

definition getUserById :: "env \<Rightarrow> store \<Rightarrow> string \<Rightarrow> find_err + user" where
  "getUserById e st userID =
     (case FindOneDecode e (Users st) (\<lambda>u. UserID u = userID) zero_user of
        (Some err, u) \<Rightarrow> Inl err
      | (None, u) \<Rightarrow> Inr u)"

definition GetRecommendedMovies :: "env \<Rightarrow> race \<Rightarrow> store \<Rightarrow> string \<Rightarrow> result" where
  "GetRecommendedMovies e r st userID =
     (if userID = [] then answer st 400 (ErrorBody ''User ID required'')
      else case getUserById e st userID of
        Inl err \<Rightarrow>
          \<lparr>resp = JSON 404 (ErrorBody ''User not found''), store_after = st,
           spawned = False, inline_calls = [''FindOne'']\<rparr>
      | Inr u \<Rightarrow>
          (let genreNames = map GenreName (FavouriteGenres u) in
           if length genreNames = 0 then
             \<lparr>resp = JSON 200 (NoFavouritesBody ''No favorite genres set for user'' [] []),
              store_after = st, spawned = False, inline_calls = [''FindOne'']\<rparr>
           else
             \<lparr>resp = select_first r
                (find_worker e (Movies st) (\<lambda>m. genre_in genreNames m \<and> rank_gte 6 m)
                   True (Some 10))
                (\<lambda>ms. JSON 200 (RecommendedBody ms genreNames (length ms)))
                (\<lambda>msg. JSON 500 (ErrorBody msg))
                timeout_response,
              store_after = st, spawned = True, inline_calls = [''FindOne'']\<rparr>))"

section \<open>User handlers\<close>

definition HashPassword :: "env \<Rightarrow> string \<Rightarrow> string + string" where
  "HashPassword e password =
     (case bcrypt_generate e password of Inl err \<Rightarrow> Inl err | Inr h \<Rightarrow> Inr h)"

definition CountDocuments :: "env \<Rightarrow> 'a list \<Rightarrow> ('a \<Rightarrow> bool) \<Rightarrow> string + nat" where
  "CountDocuments e coll flt =
     (case count_error e of Some msg \<Rightarrow> Inl msg | None \<Rightarrow> Inr (length (filter flt coll)))"

definition duplicate_email :: string where
  "duplicate_email = ''User with this email already exists''"

text \<open>
  The goroutine of \<open>RegisterUser\<close>. It signals \<open>userMade <- true\<close> after it has filled in
  the \<open>user\<close> variable it shares with the handler; the message here carries that value.
\<close>

definition register_worker :: "env \<Rightarrow> store \<Rightarrow> user \<Rightarrow> string \<Rightarrow> user message \<times> store" where
  "register_worker e st u hashedPassword =
     (case CountDocuments e (Users st) (\<lambda>x. Email x = Email u) of
        Inl msg \<Rightarrow> (Failed msg, st)
      | Inr count \<Rightarrow>
          if count > 0 then (Failed duplicate_email, st)
          else
            (let u' = u\<lparr>UserID := new_object_id e, CreatedAt := now e, UpdatedAt := now e,
                        Password := hashedPassword\<rparr>
             in case validate_user e u' of
                  v # vs \<Rightarrow> (Failed (violations_text e (v # vs)), st)
                | [] \<Rightarrow>
                    (case InsertOne e (Users st) u' of
                       Inl msg \<Rightarrow> (Failed msg, st)
                     | Inr us \<Rightarrow> (Sent u', st\<lparr>Users := us\<rparr>))))"

definition registered :: "env \<Rightarrow> user \<Rightarrow> response" where
  "registered e u =
     (case GenerateAccessToken e (Email u) (FirstName u) (LastName u) (Role u) (UserID u) of
        Inl err \<Rightarrow> JSON 500 (ErrorBody ''Failed to generate token'')
      | Inr token \<Rightarrow>
          JSON 201 (RegisteredBody token (UserID u) (FirstName u @ '' '' @ LastName u)
                      (Email u) (Role u) (FavouriteGenres u)))"

definition register_failed :: "string \<Rightarrow> response" where
  "register_failed msg =
     (if msg = ''User with this email already exists'' then JSON 409 (ErrorBody msg)
      else JSON 500 (ErrorBody msg))"

definition RegisterUser :: "env \<Rightarrow> race \<Rightarrow> store \<Rightarrow> user option \<Rightarrow> result" where
  "RegisterUser e r st bound =
     (case bound of
        None \<Rightarrow> answer st 400 (ErrorBody ''Invalid JSON'')
      | Some u \<Rightarrow>
          (case HashPassword e (Password u) of
             Inl err \<Rightarrow> answer st 500 (ErrorBody ''Failed to hash password'')
           | Inr hashedPassword \<Rightarrow>
               (case register_worker e st u hashedPassword of
                  (m, st') \<Rightarrow>
                    raced st' (select_first r m (registered e) register_failed
                                 timeout_response))))"

text \<open>
  Modelled from the spec: \<open>utils.UpdateAllTokens\<close> is not among the sources. It persists
  the latest token pair onto the user's record, overwriting any prior pair, and fails on
  a store failure.
\<close>

definition UpdateAllTokens :: "env \<Rightarrow> user list \<Rightarrow> string \<Rightarrow> string \<Rightarrow> string \<Rightarrow> string + user list" where
  "UpdateAllTokens e coll userID token refreshToken =
     (case update_tokens_error e of
        Some msg \<Rightarrow> Inl msg
      | None \<Rightarrow>
          Inr (snd (update_first (\<lambda>u. UserID u = userID)
                      (\<lambda>u. u\<lparr>Token := token, RefreshToken := refreshToken\<rparr>) coll)))"

text \<open>
  The goroutine of \<open>Login\<close> after the password check: both tokens, the update of the
  stored pair, the response.
\<close>

definition issue_tokens :: "env \<Rightarrow> store \<Rightarrow> user \<Rightarrow> user_response message \<times> store" where
  "issue_tokens e st u =
     (case GenerateAccessToken e (Email u) (FirstName u) (LastName u) (Role u) (UserID u) of
        Inl msg \<Rightarrow> (Failed msg, st)
      | Inr token \<Rightarrow>
          (case GenerateRefreshToken e (Email u) (FirstName u) (LastName u) (Role u)
                  (UserID u) of
             Inl msg \<Rightarrow> (Failed msg, st)
           | Inr refreshToken \<Rightarrow>
               (case UpdateAllTokens e (Users st) (UserID u) token refreshToken of
                  Inl msg \<Rightarrow> (Failed msg, st)
                | Inr us \<Rightarrow>
                    (Sent \<lparr>resp_UserID = UserID u, resp_FirstName = FirstName u,
                           resp_LastName = LastName u, resp_Email = Email u,
                           resp_Role = Role u,
                           resp_FavouriteGenres = FavouriteGenres u,
                           resp_Token = token, resp_RefreshToken = refreshToken\<rparr>,
                     st\<lparr>Users := us\<rparr>))))"

text \<open>
  The goroutine of \<open>Login\<close>. Only \<open>mongo.ErrNoDocuments\<close> ends it after the lookup; with
  any other error it goes on to the password check with what \<open>user\<close> holds.
\<close>

definition login_worker :: "env \<Rightarrow> store \<Rightarrow> user_login \<Rightarrow> user_response message \<times> store" where
  "login_worker e st l =
     (case FindOneDecode e (Users st) (\<lambda>u. Email u = login_Email l) zero_user of
        (err, u) \<Rightarrow>
          if err = Some ErrNoDocuments then (Failed ''Invalid credentials'', st)
          else if \<not> bcrypt_matches e (Password u) (login_Password l)
            then (Failed ''Wrong Password'', st)
          else issue_tokens e st u)"

definition Login :: "env \<Rightarrow> race \<Rightarrow> store \<Rightarrow> user_login option \<Rightarrow> result" where
  "Login e r st bound =
     (case bound of
        None \<Rightarrow> answer st 400 (ErrorBody ''Invalid JSON'')
      | Some l \<Rightarrow>
          (case login_worker e st l of
             (m, st') \<Rightarrow>
               raced st' (select_first r m
                 (\<lambda>response. JSON 200 (LoginBody response))
                 (\<lambda>msg. JSON 401 (ErrorBody msg))
                 (JSON 408 (ErrorBody ''timeout'')))))"

section \<open>Predicates of the statements\<close>

text \<open>
  \<open>ranked_ge a b\<close>: both movies have a ranking, and the value of \<open>a\<close> is at least the value
  of \<open>b\<close>. A list is in descending order of ranking value when every earlier element
  stands in this relation to every later one.
\<close>

definition ranked_ge :: "movie \<Rightarrow> movie \<Rightarrow> bool" where
  "ranked_ge a b =
     (case Ranking a of
        None \<Rightarrow> False
      | Some ra \<Rightarrow> (case Ranking b of None \<Rightarrow> False | Some rb \<Rightarrow> RankingValue rb \<le> RankingValue ra))"

definition genre_names :: "movie \<Rightarrow> string set" where
  "genre_names m = set (map GenreName (genres_of m))"

text \<open>
  A request is refused at once when the answer is 400 whichever arm of a \<open>select\<close> would
  be ready first, and the store is as it was: the answer does not come out of a race.
\<close>

definition refused_at_once :: "store \<Rightarrow> (race \<Rightarrow> result) \<Rightarrow> bool" where
  "refused_at_once st run \<longleftrightarrow>
     status (resp (run WorkerFirst)) = 400 \<and>
     resp (run TimerFirst) = resp (run WorkerFirst) \<and>
     store_after (run WorkerFirst) = st \<and> store_after (run TimerFirst) = st"

text \<open>
  The timer decides a run when, with the timer arm ready first, the answer is 408, while
  the store ends as it does when the worker reports first: the work is not cancelled.
\<close>

definition timer_decides :: "(race \<Rightarrow> result) \<Rightarrow> bool" where
  "timer_decides run \<longleftrightarrow>
     status (resp (run TimerFirst)) = 408 \<and>
     store_after (run TimerFirst) = store_after (run WorkerFirst)"

section \<open>A concrete environment and store\<close>

text \<open>
  Modelled from the spec: the field constraints of \<open>models.User\<close> are tags of a
  declaration that is not among the sources. The specification names the required
  fields: email, password and the two names.
\<close>

definition required_user_fields :: "user \<Rightarrow> (string \<times> string) list" where
  "required_user_fields u =
     (if FirstName u = [] then [(''FirstName'', ''required'')] else []) @
     (if LastName u = [] then [(''LastName'', ''required'')] else []) @
     (if Email u = [] then [(''Email'', ''required'')] else []) @
     (if Password u = [] then [(''Password'', ''required'')] else [])"

text \<open>
  An environment in which every driver call succeeds. Its hash, tokens, error text, URL
  check and pattern match are stand-ins that keep the terms small; the hash refuses a
  password of more than 72 bytes, as bcrypt does.
\<close>

definition healthy :: env where
  "healthy =
     \<lparr>find_error = None, all_error = None, find_one_error = None, count_error = None,
      insert_error = None, update_error = None, update_tokens_error = None,
      bcrypt_generate =
        (\<lambda>p. if 72 < length p then Inl ''bcrypt: password length exceeds 72 bytes''
             else Inr (''h:'' @ p)),
      bcrypt_matches = (\<lambda>h p. h = ''h:'' @ p),
      GenerateAccessToken = (\<lambda>email first last role uid. Inr (''a.'' @ uid)),
      GenerateRefreshToken = (\<lambda>email first last role uid. Inr (''r.'' @ uid)),
      validate_user = required_user_fields,
      is_url = (\<lambda>s. take 7 s = ''http://'' \<and> 7 < length s),
      violations_text = (\<lambda>vs. concat (map (\<lambda>v. fst v @ '':'' @ snd v @ '';'') vs)),
      new_object_id = ''id3'',
      now = 1,
      regex_match = (\<lambda>pat s. pat = s)\<rparr>"

definition action :: genre where
  "action = \<lparr>GenreID = 1, GenreName = ''Action''\<rparr>"

definition drama :: genre where
  "drama = \<lparr>GenreID = 2, GenreName = ''Drama''\<rparr>"

definition film :: "string \<Rightarrow> genre list \<Rightarrow> ranking option \<Rightarrow> movie" where
  "film i gs rk =
     \<lparr>MovieID = i, ImdbID = i, Title = ''Heat'', PosterPath = ''http://p'',
      YouTubeID = ''y'', Genre = Some gs, AdminReview = None, Ranking = rk\<rparr>"

definition rated :: "int \<Rightarrow> ranking option" where
  "rated v = Some \<lparr>RankingValue = v, RankingName = getRatingName v\<rparr>"

definition ann :: user where
  "ann = zero_user\<lparr>UserID := ''id1'', FirstName := ''Ann'', LastName := ''Lee'',
           Email := ''ann@x.io'', Password := ''h:secret'', Role := ''USER'',
           FavouriteGenres := [action]\<rparr>"

definition bob :: user where
  "bob = zero_user\<lparr>UserID := ''id2'', FirstName := ''Bob'', LastName := ''Ray'',
           Email := ''bob@x.io'', Password := ''h:hunter2'', Role := ''USER''\<rparr>"

definition catalog :: store where
  "catalog =
     \<lparr>Users = [ann, bob],
      Movies = [film ''tt1'' [action] (rated 6), film ''tt2'' [drama] (rated 9),
                film ''tt3'' [action, drama] (rated 8), film ''tt4'' [action] (rated 5),
                film ''tt5'' [action] None, film ''tt6'' [drama] (rated 7)]\<rparr>"

text \<open>Requests against the catalog.\<close>

definition bob_again :: user where
  "bob_again = zero_user\<lparr>FirstName := ''Rob'', LastName := ''Roy'', Email := ''bob@x.io'',
                 Password := ''pw'', Role := ''USER''\<rparr>"

text \<open>A password of 73 bytes.\<close>

definition bob_long :: user where
  "bob_long = bob_again\<lparr>Password := replicate 73 CHR ''x''\<rparr>"

definition cy :: user where
  "cy = zero_user\<lparr>FirstName := ''Cy'', LastName := ''Fox'', Email := ''cy@x.io'',
           Password := ''pw'', Role := ''USER''\<rparr>"

definition nameless :: user where
  "nameless = zero_user\<lparr>LastName := ''Fox'', Email := ''nn@x.io'', Password := ''pw'',
                 Role := ''USER''\<rparr>"

definition untitled :: movie where
  "untitled = (film ''tt9'' [drama] None)\<lparr>Title := []\<rparr>"

definition stranger :: user_login where
  "stranger = \<lparr>login_Email = ''eve@x.io'', login_Password = ''secret''\<rparr>"

definition ann_mistyped :: user_login where
  "ann_mistyped = \<lparr>login_Email = ''ann@x.io'', login_Password = ''secrte''\<rparr>"

definition ann_login :: user_login where
  "ann_login = \<lparr>login_Email = ''ann@x.io'', login_Password = ''secret''\<rparr>"

text \<open>The healthy environment, except that \<open>FindOne\<close> fails.\<close>

definition broken_lookup :: env where
  "broken_lookup = healthy\<lparr>find_one_error := Some (StoreFailure ''connection reset'')\<rparr>"

text \<open>
  The healthy environment, except that the document found by \<open>FindOne\<close> does not decode:
  its favourite genres are not an array, and every other field is decoded before them.
\<close>

definition before_genres :: "user_field list" where
  "before_genres =
     [F_UserID, F_FirstName, F_LastName, F_Email, F_Password, F_Role, F_CreatedAt,
      F_UpdatedAt, F_Token, F_RefreshToken]"

definition half_decoded :: env where
  "half_decoded = healthy\<lparr>find_one_error :=
     Some (DecodeFailure ''error decoding key favourite_genres'' before_genres)\<rparr>"

text \<open>The healthy environment, except that every driver call fails.\<close>

definition unreachable :: env where
  "unreachable = healthy\<lparr>find_error := Some ''connection reset'',
     all_error := Some ''connection reset'',
     find_one_error := Some (StoreFailure ''connection reset''),
     count_error := Some ''connection reset'', insert_error := Some ''connection reset'',
     update_error := Some ''connection reset'',
     update_tokens_error := Some ''connection reset''\<rparr>"

definition praise :: review_request where
  "praise = \<lparr>req_AdminReview = ''fine'', req_Rating = 9\<rparr>"

definition premiere :: movie where
  "premiere = film ''tt7'' [drama] None"

section \<open>The admin review: rating and ranking name\<close>

text \<open>The switch of \<open>getRatingName\<close> computes the threshold table.\<close>

lemma getRatingName_table: "getRatingName r = table_name r"
  by (simp add: getRatingName_def table_name_def threshold_table_def)

lemma validate_req_Nil_iff:
  "validate_req q = [] \<longleftrightarrow> req_AdminReview q \<noteq> [] \<and> 1 \<le> req_Rating q \<and> req_Rating q \<le> 10"
  by (auto simp: validate_req_def)

lemma update_first_set:
  "m \<in> set (snd (update_first p f xs)) \<Longrightarrow> m \<in> set xs \<or> (\<exists>x\<in>set xs. p x \<and> m = f x)"
  by (induction xs arbitrary: m) (auto split: if_splits prod.splits)

lemma update_first_matched:
  "fst (update_first p f xs) = (if \<exists>x\<in>set xs. p x then 1 else 0)"
  by (induction xs) (auto split: prod.splits)

lemma update_first_hit:
  "\<exists>x\<in>set xs. p x \<Longrightarrow> \<exists>x\<in>set xs. p x \<and> f x \<in> set (snd (update_first p f xs))"
  by (induction xs) (fastforce split: prod.splits)+

lemma AdminReviewUpdate_invalid:
  assumes "movieId \<noteq> []" and "validate_req q = v # vs"
  shows "AdminReviewUpdate e st movieId (Some q) = answer st 400 (ValidationBody (v # vs))"
  using assms by (simp add: AdminReviewUpdate_def)

lemma AdminReviewUpdate_valid:
  assumes "movieId \<noteq> []" and "validate_req q = []"
  shows "AdminReviewUpdate e st movieId (Some q) =
    (case update_error e of
       Some msg \<Rightarrow>
         \<lparr>resp = JSON 500 (ErrorBody ''Failed to update movie''), store_after = st,
          spawned = False, inline_calls = [''UpdateOne'']\<rparr>
     | None \<Rightarrow>
         \<lparr>resp = (if \<exists>m\<in>set (Movies st). ImdbID m = movieId
                  then JSON 200 (ReviewBody ''Review updated successfully''
                         (req_AdminReview q) (req_Rating q) (table_name (req_Rating q)))
                  else JSON 404 (ErrorBody ''Movie not found'')),
          store_after = st\<lparr>Movies := snd (update_first (\<lambda>m. ImdbID m = movieId)
             (set_review (req_AdminReview q) (req_Rating q) (table_name (req_Rating q)))
             (Movies st))\<rparr>,
          spawned = False, inline_calls = [''UpdateOne'']\<rparr>)"
proof (cases "update_error e")
  case None
  obtain n ms where u: "update_first (\<lambda>m. ImdbID m = movieId)
             (set_review (req_AdminReview q) (req_Rating q) (table_name (req_Rating q)))
             (Movies st) = (n, ms)" by (cases "update_first (\<lambda>m. ImdbID m = movieId)
             (set_review (req_AdminReview q) (req_Rating q) (table_name (req_Rating q)))
             (Movies st)")
  have n: "n = (if \<exists>m\<in>set (Movies st). ImdbID m = movieId then 1 else 0)"
    using update_first_matched[of "\<lambda>m. ImdbID m = movieId" _ "Movies st"] u
    by (metis fst_conv)
  show ?thesis
    using assms None u n
    by (simp add: AdminReviewUpdate_def UpdateOne_def getRatingName_table)
next
  case (Some msg)
  then show ?thesis
    using assms by (simp add: AdminReviewUpdate_def UpdateOne_def)
qed

text \<open>
  Claim C2. A review update with an integer rating \<open>r\<close>, on a request with a movie id and
  a body that binds. For \<open>r\<close> in 1..10: a success response carries the ranking name that the
  threshold table gives for \<open>r\<close>; every document of the collection afterwards is one that
  was there before or has the ranking \<open>(r, table name of r)\<close>; and when the review text is
  not empty, the update succeeds and a movie has that id, the response is 200 and a movie
  with that id holds this ranking. For \<open>r\<close> outside 1..10: the response is 400 with the
  validation body, the store is as before and no \<open>UpdateOne\<close> was issued.
\<close>

theorem AdminReviewUpdate_rating:
  assumes "movieId \<noteq> []"
  shows "(1 \<le> req_Rating q \<and> req_Rating q \<le> 10 \<longrightarrow>
            (status (resp (AdminReviewUpdate e st movieId (Some q))) = 200 \<longrightarrow>
               body (resp (AdminReviewUpdate e st movieId (Some q))) =
                 ReviewBody ''Review updated successfully'' (req_AdminReview q) (req_Rating q)
                   (table_name (req_Rating q))) \<and>
            (\<forall>m \<in> set (Movies (store_after (AdminReviewUpdate e st movieId (Some q)))).
               m \<in> set (Movies st) \<or>
               Ranking m = Some \<lparr>RankingValue = req_Rating q,
                                  RankingName = table_name (req_Rating q)\<rparr>) \<and>
            (req_AdminReview q \<noteq> [] \<and> update_error e = None \<and>
             (\<exists>m \<in> set (Movies st). ImdbID m = movieId) \<longrightarrow>
               status (resp (AdminReviewUpdate e st movieId (Some q))) = 200 \<and>
               (\<exists>m \<in> set (Movies (store_after (AdminReviewUpdate e st movieId (Some q)))).
                  ImdbID m = movieId \<and>
                  Ranking m = Some \<lparr>RankingValue = req_Rating q,
                                     RankingName = table_name (req_Rating q)\<rparr>))) \<and>
         (req_Rating q < 1 \<or> 10 < req_Rating q \<longrightarrow>
            status (resp (AdminReviewUpdate e st movieId (Some q))) = 400 \<and>
            (\<exists>vs. body (resp (AdminReviewUpdate e st movieId (Some q))) = ValidationBody vs) \<and>
            store_after (AdminReviewUpdate e st movieId (Some q)) = st \<and>
            inline_calls (AdminReviewUpdate e st movieId (Some q)) = [])"
proof (intro conjI impI)
  assume rng: "1 \<le> req_Rating q \<and> req_Rating q \<le> 10"
  assume "status (resp (AdminReviewUpdate e st movieId (Some q))) = 200"
  then show "body (resp (AdminReviewUpdate e st movieId (Some q))) =
                 ReviewBody ''Review updated successfully'' (req_AdminReview q) (req_Rating q)
                   (table_name (req_Rating q))"
  proof (cases "validate_req q")
    case Nil
    with \<open>status _ = 200\<close> show ?thesis
      by (simp add: AdminReviewUpdate_valid[OF assms Nil] JSON_def
               split: option.splits if_splits)
  next
    case (Cons v vs)
    with \<open>status _ = 200\<close> show ?thesis
      by (simp add: AdminReviewUpdate_invalid[OF assms Cons] answer_def JSON_def)
  qed
next
  assume rng: "1 \<le> req_Rating q \<and> req_Rating q \<le> 10"
  show "\<forall>m \<in> set (Movies (store_after (AdminReviewUpdate e st movieId (Some q)))).
               m \<in> set (Movies st) \<or>
               Ranking m = Some \<lparr>RankingValue = req_Rating q, RankingName = table_name (req_Rating q)\<rparr>"
  proof (cases "validate_req q")
    case Nil
    show ?thesis
      by (auto simp: AdminReviewUpdate_valid[OF assms Nil] set_review_def
               split: option.splits dest!: update_first_set)
  next
    case (Cons v vs)
    show ?thesis
      by (simp add: AdminReviewUpdate_invalid[OF assms Cons] answer_def)
  qed
next
  assume rng: "1 \<le> req_Rating q \<and> req_Rating q \<le> 10"
  assume ok: "req_AdminReview q \<noteq> [] \<and> update_error e = None \<and>
             (\<exists>m \<in> set (Movies st). ImdbID m = movieId)"
  with rng have Nil: "validate_req q = []" by (simp add: validate_req_Nil_iff)
  from ok show "status (resp (AdminReviewUpdate e st movieId (Some q))) = 200"
    by (simp add: AdminReviewUpdate_valid[OF assms Nil] JSON_def)
  let ?f = "set_review (req_AdminReview q) (req_Rating q) (table_name (req_Rating q))"
  from ok have after: "Movies (store_after (AdminReviewUpdate e st movieId (Some q))) =
      snd (update_first (\<lambda>m. ImdbID m = movieId) ?f (Movies st))"
    by (simp add: AdminReviewUpdate_valid[OF assms Nil])
  from ok obtain x where x: "ImdbID x = movieId"
      "?f x \<in> set (snd (update_first (\<lambda>m. ImdbID m = movieId) ?f (Movies st)))"
    using update_first_hit[of "Movies st" "\<lambda>m. ImdbID m = movieId" ?f] by blast
  have "ImdbID (?f x) = movieId \<and>
      Ranking (?f x) = Some \<lparr>RankingValue = req_Rating q,
                                RankingName = table_name (req_Rating q)\<rparr>"
    using x(1) by (simp add: set_review_def)
  with x(2) after
  show "\<exists>m \<in> set (Movies (store_after (AdminReviewUpdate e st movieId (Some q)))).
                  ImdbID m = movieId \<and>
                  Ranking m = Some \<lparr>RankingValue = req_Rating q,
                                     RankingName = table_name (req_Rating q)\<rparr>"
    by metis
next
  assume out: "req_Rating q < 1 \<or> 10 < req_Rating q"
  then have "validate_req q \<noteq> []" by (auto simp: validate_req_Nil_iff)
  then obtain v vs where "validate_req q = v # vs" by (cases "validate_req q") auto
  then show "status (resp (AdminReviewUpdate e st movieId (Some q))) = 400"
     "\<exists>vs. body (resp (AdminReviewUpdate e st movieId (Some q))) = ValidationBody vs"
     "store_after (AdminReviewUpdate e st movieId (Some q)) = st"
     "inline_calls (AdminReviewUpdate e st movieId (Some q)) = []"
    using assms by (simp_all add: AdminReviewUpdate_def answer_def JSON_def)
qed

text \<open>
  The claim at movie \<open>tt4\<close> of the catalog: rating 9 stores and returns \<open>"excellent"\<close>;
  ratings 11 and 0 are refused and leave the store alone.
\<close>

theorem AdminReviewUpdate_rating_witness:
  "''tt4'' \<noteq> [] \<and>
   map Ranking (Movies (store_after (AdminReviewUpdate healthy catalog ''tt4''
     (Some \<lparr>req_AdminReview = ''fine'', req_Rating = 9\<rparr>)))) =
     [rated 6, rated 9, rated 8, Some \<lparr>RankingValue = 9, RankingName = ''excellent''\<rparr>,
      None, rated 7] \<and>
   body (resp (AdminReviewUpdate healthy catalog ''tt4''
     (Some \<lparr>req_AdminReview = ''fine'', req_Rating = 9\<rparr>))) =
     ReviewBody ''Review updated successfully'' ''fine'' 9 (table_name 9) \<and>
   status (resp (AdminReviewUpdate healthy catalog ''tt4''
     (Some \<lparr>req_AdminReview = ''fine'', req_Rating = 11\<rparr>))) = 400 \<and>
   store_after (AdminReviewUpdate healthy catalog ''tt4''
     (Some \<lparr>req_AdminReview = ''fine'', req_Rating = 0\<rparr>)) = catalog"
proof -
  have h: "''tt4'' \<noteq> []" by simp
  have run: "map Ranking (Movies (store_after (AdminReviewUpdate healthy catalog ''tt4''
     (Some \<lparr>req_AdminReview = ''fine'', req_Rating = 9\<rparr>)))) =
     [rated 6, rated 9, rated 8, Some \<lparr>RankingValue = 9, RankingName = ''excellent''\<rparr>,
      None, rated 7]"
    by (simp add: AdminReviewUpdate_def validate_req_def getRatingName_def UpdateOne_def
          healthy_def catalog_def film_def set_review_def Let_def)
  have s: "status (resp (AdminReviewUpdate healthy catalog ''tt4''
      (Some \<lparr>req_AdminReview = ''fine'', req_Rating = 9\<rparr>))) = 200"
    by (simp add: AdminReviewUpdate_def validate_req_def getRatingName_def UpdateOne_def
          healthy_def catalog_def film_def set_review_def JSON_def Let_def)
  have b: "body (resp (AdminReviewUpdate healthy catalog ''tt4''
     (Some \<lparr>req_AdminReview = ''fine'', req_Rating = 9\<rparr>))) =
     ReviewBody ''Review updated successfully'' ''fine'' 9 (table_name 9)"
    using AdminReviewUpdate_rating[OF h, of "\<lparr>req_AdminReview = ''fine'', req_Rating = 9\<rparr>"
        healthy catalog] s by simp
  have c: "status (resp (AdminReviewUpdate healthy catalog ''tt4''
     (Some \<lparr>req_AdminReview = ''fine'', req_Rating = 11\<rparr>))) = 400"
    using AdminReviewUpdate_rating[OF h, of "\<lparr>req_AdminReview = ''fine'', req_Rating = 11\<rparr>"
        healthy catalog] by simp
  have d: "store_after (AdminReviewUpdate healthy catalog ''tt4''
     (Some \<lparr>req_AdminReview = ''fine'', req_Rating = 0\<rparr>)) = catalog"
    using AdminReviewUpdate_rating[OF h, of "\<lparr>req_AdminReview = ''fine'', req_Rating = 0\<rparr>"
        healthy catalog] by simp
  from h run b c d show ?thesis by blast
qed

section \<open>Sorted, limited queries\<close>

lemma key_le_total: "key_le a b \<or> key_le b a"
  by (cases a; cases b) auto

lemma key_le_trans: "key_le a b \<Longrightarrow> key_le b c \<Longrightarrow> key_le a c"
  by (cases a; cases b; cases c) auto

lemma set_place_desc: "set (place_desc m xs) = insert m (set xs)"
  by (induction xs) auto

lemma sorted_place_desc:
  assumes "sorted_wrt (\<lambda>a b. key_le (rank_key b) (rank_key a)) xs"
  shows "sorted_wrt (\<lambda>a b. key_le (rank_key b) (rank_key a)) (place_desc m xs)"
  using assms
proof (induction xs)
  case Nil
  then show ?case by simp
next
  case (Cons x xs)
  show ?case
  proof (cases "key_le (rank_key x) (rank_key m)")
    case True
    with Cons.prems show ?thesis
      by (auto intro: key_le_trans)
  next
    case False
    then have "key_le (rank_key m) (rank_key x)"
      using key_le_total by blast
    with False Cons show ?thesis
      by (auto simp: set_place_desc)
  qed
qed

lemma set_sort_rank_desc: "set (sort_rank_desc ms) = set ms"
  by (induction ms) (simp_all add: sort_rank_desc_def set_place_desc)

lemma sorted_sort_rank_desc:
  "sorted_wrt (\<lambda>a b. key_le (rank_key b) (rank_key a)) (sort_rank_desc ms)"
  by (induction ms) (simp_all add: sort_rank_desc_def sorted_place_desc)

lemma sorted_wrt_take_any: "sorted_wrt R xs \<Longrightarrow> sorted_wrt R (take n xs)"
  by (induction xs arbitrary: n) (auto simp: take_Cons split: nat.splits dest: in_set_takeD)

text \<open>What a query with the rank sort and a limit returns, whatever its filter.\<close>

lemma ranked_query:
  fixes flt :: "movie \<Rightarrow> bool" and coll :: "movie list" and n :: nat
  assumes "\<And>m. flt m \<Longrightarrow> rank_gte k m"
  defines "ms \<equiv> take n (sort_rank_desc (filter flt coll))"
  shows "set ms \<subseteq> {m \<in> set coll. flt m}" and "sorted_wrt ranked_ge ms" and "length ms \<le> n"
proof -
  show sub: "set ms \<subseteq> {m \<in> set coll. flt m}"
    unfolding ms_def using set_take_subset[of n "sort_rank_desc (filter flt coll)"]
    by (auto simp: set_sort_rank_desc)
  have "sorted_wrt (\<lambda>a b. key_le (rank_key b) (rank_key a)) ms"
    unfolding ms_def by (intro sorted_wrt_take_any sorted_sort_rank_desc)
  moreover have "\<And>a b. a \<in> set ms \<Longrightarrow> b \<in> set ms \<Longrightarrow> key_le (rank_key b) (rank_key a)
      \<Longrightarrow> ranked_ge a b"
  proof -
    fix a b assume "a \<in> set ms" "b \<in> set ms" and le: "key_le (rank_key b) (rank_key a)"
    with sub assms(1) have "rank_gte k a" "rank_gte k b" by auto
    with le show "ranked_ge a b"
      by (auto simp: rank_gte_def ranked_ge_def rank_key_def split: option.splits)
  qed
  ultimately show "sorted_wrt ranked_ge ms"
    by (rule sorted_wrt_mono_rel[rotated])
  show "length ms \<le> n" unfolding ms_def by simp
qed

lemma rank_gte_iff: "rank_gte k m \<longleftrightarrow> (\<exists>rk. Ranking m = Some rk \<and> k \<le> RankingValue rk)"
  by (simp add: rank_gte_def split: option.splits)

lemma genre_in_iff: "genre_in names m \<longleftrightarrow> genre_names m \<inter> set names \<noteq> {}"
  by (auto simp: genre_in_def genre_names_def list_ex_iff)

lemma find_worker_cases:
  "find_worker e coll flt by_rank lim =
     (case find_error e of
        Some msg \<Rightarrow> Failed msg
      | None \<Rightarrow> (case all_error e of
           Some msg \<Rightarrow> Failed msg
         | None \<Rightarrow> Sent (apply_limit lim ((if by_rank then sort_rank_desc else id) (filter flt coll)))))"
  by (simp add: find_worker_def Find_def cursor_All_def split: option.splits)

section \<open>Top-rated movies\<close>

lemma top_rated_movies_of:
  "movies_of (body (resp (GetTopRatedMovies e r st))) = [] \<or>
   movies_of (body (resp (GetTopRatedMovies e r st))) =
     take 20 (sort_rank_desc (filter (rank_gte 7) (Movies st)))"
  by (cases r)
     (simp_all add: GetTopRatedMovies_def raced_def select_first_def find_worker_cases
        apply_limit_def JSON_def timeout_response_def split: option.splits)

text \<open>
  Claim C4. For every catalog, environment and race, the movies in the response of
  \<open>GetTopRatedMovies\<close> are movies of the catalog with a ranking value of at least 7 (so
  none below 7), they are in descending order of ranking value, and there are at most 20
  of them. When the worker reports first and the driver calls succeed, the response is
  200 and its list is the first 20 of the sorted matches.
\<close>

theorem GetTopRatedMovies_result:
  "(\<forall>m \<in> set (movies_of (body (resp (GetTopRatedMovies e r st)))).
      m \<in> set (Movies st) \<and> (\<exists>rk. Ranking m = Some rk \<and> 7 \<le> RankingValue rk)) \<and>
   sorted_wrt ranked_ge (movies_of (body (resp (GetTopRatedMovies e r st)))) \<and>
   length (movies_of (body (resp (GetTopRatedMovies e r st)))) \<le> 20 \<and>
   (r = WorkerFirst \<and> find_error e = None \<and> all_error e = None \<longrightarrow>
      status (resp (GetTopRatedMovies e r st)) = 200 \<and>
      body (resp (GetTopRatedMovies e r st)) =
        TopRatedBody (movies_of (body (resp (GetTopRatedMovies e r st))))
          (length (movies_of (body (resp (GetTopRatedMovies e r st))))) 7 \<and>
      movies_of (body (resp (GetTopRatedMovies e r st))) =
        take 20 (sort_rank_desc (filter (rank_gte 7) (Movies st))))"
proof -
  let ?ms = "movies_of (body (resp (GetTopRatedMovies e r st)))"
  let ?q = "take 20 (sort_rank_desc (filter (rank_gte 7) (Movies st)))"
  note q = ranked_query[of "rank_gte 7" 7 20 "Movies st", OF _]
  have cases: "?ms = [] \<or> ?ms = ?q" by (rule top_rated_movies_of)
  have 1: "\<forall>m \<in> set ?ms. m \<in> set (Movies st) \<and> (\<exists>rk. Ranking m = Some rk \<and> 7 \<le> RankingValue rk)"
    using cases q(1) by (auto simp: rank_gte_iff)
  have 2: "sorted_wrt ranked_ge ?ms" using cases q(2) by auto
  have 3: "length ?ms \<le> 20" using cases q(3) by auto
  have 4: "r = WorkerFirst \<and> find_error e = None \<and> all_error e = None \<longrightarrow>
      status (resp (GetTopRatedMovies e r st)) = 200 \<and>
      body (resp (GetTopRatedMovies e r st)) = TopRatedBody ?ms (length ?ms) 7 \<and> ?ms = ?q"
    by (simp add: GetTopRatedMovies_def raced_def select_first_def find_worker_cases
        apply_limit_def JSON_def)
  from 1 2 3 4 show ?thesis by blast
qed


text \<open>On the catalog: three of the six movies qualify, best first.\<close>

lemma top_rated_catalog:
  "movies_of (body (resp (GetTopRatedMovies healthy WorkerFirst catalog))) =
     [film ''tt2'' [drama] (rated 9), film ''tt3'' [action, drama] (rated 8),
      film ''tt6'' [drama] (rated 7)]"
  by (simp add: GetTopRatedMovies_def raced_def select_first_def find_worker_cases
        apply_limit_def JSON_def healthy_def catalog_def film_def rated_def rank_gte_def
        sort_rank_desc_def rank_key_def)

theorem GetTopRatedMovies_result_witness:
  "map ImdbID (movies_of (body (resp (GetTopRatedMovies healthy WorkerFirst catalog)))) =
     [''tt2'', ''tt3'', ''tt6''] \<and>
   film ''tt6'' [drama] (rated 7)
     \<in> set (movies_of (body (resp (GetTopRatedMovies healthy WorkerFirst catalog)))) \<and>
   (\<exists>rk. Ranking (film ''tt6'' [drama] (rated 7)) = Some rk \<and> 7 \<le> RankingValue rk) \<and>
   sorted_wrt ranked_ge (movies_of (body (resp (GetTopRatedMovies healthy WorkerFirst catalog)))) \<and>
   length (movies_of (body (resp (GetTopRatedMovies healthy WorkerFirst catalog)))) \<le> 20 \<and>
   status (resp (GetTopRatedMovies healthy WorkerFirst catalog)) = 200"
proof -
  let ?ms = "movies_of (body (resp (GetTopRatedMovies healthy WorkerFirst catalog)))"
  note T = GetTopRatedMovies_result[of healthy WorkerFirst catalog]
  have names: "map ImdbID ?ms = [''tt2'', ''tt3'', ''tt6'']"
    by (simp add: top_rated_catalog film_def)
  have mem: "film ''tt6'' [drama] (rated 7) \<in> set ?ms"
    by (simp add: top_rated_catalog)
  from T mem have ex: "\<exists>rk. Ranking (film ''tt6'' [drama] (rated 7)) = Some rk \<and> 7 \<le> RankingValue rk"
    by blast
  from T have s: "sorted_wrt ranked_ge ?ms" and l: "length ?ms \<le> 20" by blast+
  have "find_error healthy = None \<and> all_error healthy = None" by (simp add: healthy_def)
  with T have ok: "status (resp (GetTopRatedMovies healthy WorkerFirst catalog)) = 200" by blast
  from names mem ex s l ok show ?thesis by blast
qed

section \<open>Recommendations\<close>

lemma getUserById_found:
  assumes "find_one_error e = None" and "find (\<lambda>x. UserID x = userID) (Users st) = Some u"
  shows "getUserById e st userID = Inr u"
  using assms by (simp add: getUserById_def FindOneDecode_def)

lemma recommended_movies_of:
  assumes "getUserById e st userID = Inr u"
  shows "movies_of (body (resp (GetRecommendedMovies e r st userID))) = [] \<or>
   movies_of (body (resp (GetRecommendedMovies e r st userID))) =
     take 10 (sort_rank_desc (filter
       (\<lambda>m. genre_in (map GenreName (FavouriteGenres u)) m \<and> rank_gte 6 m) (Movies st)))"
  using assms
  by (cases r)
     (simp_all add: GetRecommendedMovies_def answer_def select_first_def find_worker_cases
        apply_limit_def JSON_def timeout_response_def Let_def split: option.splits)

text \<open>
  Claim C5. For a user whose list of favourite genres is not empty, the movies in the
  response of \<open>GetRecommendedMovies\<close> are movies of the catalog whose genre names meet the
  user's favourite genre names and whose ranking value is at least 6; they are in
  descending order of ranking value, and there are at most 10 of them. When the worker
  reports first and the driver calls succeed, the response is 200 and its list is the
  first 10 of the sorted matches.
\<close>

theorem GetRecommendedMovies_result:
  assumes "find_one_error e = None"
    and "find (\<lambda>x. UserID x = userID) (Users st) = Some u"
    and "FavouriteGenres u \<noteq> []"
  shows
  "(\<forall>m \<in> set (movies_of (body (resp (GetRecommendedMovies e r st userID)))).
      m \<in> set (Movies st) \<and>
      genre_names m \<inter> set (map GenreName (FavouriteGenres u)) \<noteq> {} \<and>
      (\<exists>rk. Ranking m = Some rk \<and> 6 \<le> RankingValue rk)) \<and>
   sorted_wrt ranked_ge (movies_of (body (resp (GetRecommendedMovies e r st userID)))) \<and>
   length (movies_of (body (resp (GetRecommendedMovies e r st userID)))) \<le> 10 \<and>
   (userID \<noteq> [] \<and> r = WorkerFirst \<and> find_error e = None \<and> all_error e = None \<longrightarrow>
      status (resp (GetRecommendedMovies e r st userID)) = 200 \<and>
      body (resp (GetRecommendedMovies e r st userID)) =
        RecommendedBody (movies_of (body (resp (GetRecommendedMovies e r st userID))))
          (map GenreName (FavouriteGenres u))
          (length (movies_of (body (resp (GetRecommendedMovies e r st userID))))) \<and>
      movies_of (body (resp (GetRecommendedMovies e r st userID))) =
        take 10 (sort_rank_desc (filter
          (\<lambda>m. genre_in (map GenreName (FavouriteGenres u)) m \<and> rank_gte 6 m) (Movies st))))"
proof -
  let ?ms = "movies_of (body (resp (GetRecommendedMovies e r st userID)))"
  let ?names = "map GenreName (FavouriteGenres u)"
  let ?flt = "\<lambda>m. genre_in ?names m \<and> rank_gte 6 m"
  let ?q = "take 10 (sort_rank_desc (filter ?flt (Movies st)))"
  have found: "getUserById e st userID = Inr u"
    using assms(1,2) by (rule getUserById_found)
  note q = ranked_query[of ?flt 6 10 "Movies st"]
  have cases: "?ms = [] \<or> ?ms = ?q" using found by (rule recommended_movies_of)
  have 1: "\<forall>m \<in> set ?ms. m \<in> set (Movies st) \<and> genre_names m \<inter> set ?names \<noteq> {} \<and>
      (\<exists>rk. Ranking m = Some rk \<and> 6 \<le> RankingValue rk)"
  proof
    fix m assume "m \<in> set ?ms"
    with cases q(1) have "m \<in> set (Movies st)" and "genre_in ?names m" and "rank_gte 6 m"
      by auto
    then show "m \<in> set (Movies st) \<and> genre_names m \<inter> set ?names \<noteq> {} \<and>
      (\<exists>rk. Ranking m = Some rk \<and> 6 \<le> RankingValue rk)"
      by (simp add: rank_gte_iff genre_in_iff)
  qed
  have 2: "sorted_wrt ranked_ge ?ms" using cases q(2) by auto
  have 3: "length ?ms \<le> 10" using cases q(3) by auto
  have 4: "userID \<noteq> [] \<and> r = WorkerFirst \<and> find_error e = None \<and> all_error e = None \<longrightarrow>
      status (resp (GetRecommendedMovies e r st userID)) = 200 \<and>
      body (resp (GetRecommendedMovies e r st userID)) = RecommendedBody ?ms ?names (length ?ms) \<and>
      ?ms = ?q"
    using found assms(3)
    by (simp add: GetRecommendedMovies_def select_first_def find_worker_cases
        apply_limit_def JSON_def Let_def)
  from 1 2 3 4 show ?thesis by blast
qed

text \<open>On the catalog: Ann likes action; \<open>tt4\<close> (rated 5) and \<open>tt5\<close> (unrated) stay out.\<close>

lemma recommended_catalog:
  "movies_of (body (resp (GetRecommendedMovies healthy WorkerFirst catalog ''id1''))) =
     [film ''tt3'' [action, drama] (rated 8), film ''tt1'' [action] (rated 6)]"
  by (simp add: GetRecommendedMovies_def getUserById_def FindOneDecode_def select_first_def
        find_worker_cases apply_limit_def JSON_def healthy_def catalog_def film_def rated_def
        rank_gte_def genre_in_def genres_of_def sort_rank_desc_def rank_key_def ann_def
        bob_def zero_user_def action_def drama_def Let_def)

theorem GetRecommendedMovies_result_witness:
  "find_one_error healthy = None \<and>
   find (\<lambda>x. UserID x = ''id1'') (Users catalog) = Some ann \<and>
   FavouriteGenres ann \<noteq> [] \<and>
   map ImdbID (movies_of (body (resp (GetRecommendedMovies healthy WorkerFirst catalog ''id1'')))) =
     [''tt3'', ''tt1''] \<and>
   film ''tt1'' [action] (rated 6)
     \<in> set (movies_of (body (resp (GetRecommendedMovies healthy WorkerFirst catalog ''id1'')))) \<and>
   genre_names (film ''tt1'' [action] (rated 6)) \<inter> set (map GenreName (FavouriteGenres ann)) \<noteq> {} \<and>
   (\<exists>rk. Ranking (film ''tt1'' [action] (rated 6)) = Some rk \<and> 6 \<le> RankingValue rk) \<and>
   sorted_wrt ranked_ge
     (movies_of (body (resp (GetRecommendedMovies healthy WorkerFirst catalog ''id1'')))) \<and>
   length (movies_of (body (resp (GetRecommendedMovies healthy WorkerFirst catalog ''id1'')))) \<le> 10 \<and>
   status (resp (GetRecommendedMovies healthy WorkerFirst catalog ''id1'')) = 200"
proof -
  let ?ms = "movies_of (body (resp (GetRecommendedMovies healthy WorkerFirst catalog ''id1'')))"
  have h1: "find_one_error healthy = None" by (simp add: healthy_def)
  have h2: "find (\<lambda>x. UserID x = ''id1'') (Users catalog) = Some ann"
    by (simp add: catalog_def ann_def zero_user_def)
  have h3: "FavouriteGenres ann \<noteq> []" by (simp add: ann_def)
  note T = GetRecommendedMovies_result[OF h1 h2 h3, of WorkerFirst]
  have names: "map ImdbID ?ms = [''tt3'', ''tt1'']"
    by (simp add: recommended_catalog film_def)
  have mem: "film ''tt1'' [action] (rated 6) \<in> set ?ms"
    by (simp add: recommended_catalog)
  from T mem have g: "genre_names (film ''tt1'' [action] (rated 6)) \<inter>
      set (map GenreName (FavouriteGenres ann)) \<noteq> {}"
    and ex: "\<exists>rk. Ranking (film ''tt1'' [action] (rated 6)) = Some rk \<and> 6 \<le> RankingValue rk"
    by blast+
  from T have s: "sorted_wrt ranked_ge ?ms" and l: "length ?ms \<le> 10" by blast+
  have "''id1'' \<noteq> [] \<and> find_error healthy = None \<and> all_error healthy = None"
    by (simp add: healthy_def)
  with T have ok: "status (resp (GetRecommendedMovies healthy WorkerFirst catalog ''id1'')) = 200"
    by blast
  from h1 h2 h3 names mem g ex s l ok show ?thesis by blast
qed

text \<open>
  Claim C6. For a user who is in the store, whose lookup succeeds and whose list of
  favourite genres is empty, \<open>GetRecommendedMovies\<close> answers 200 with the message and the
  empty lists, without starting a worker; the race plays no part.
\<close>

theorem GetRecommendedMovies_no_favourites:
  assumes "userID \<noteq> []"
    and "find_one_error e = None"
    and "find (\<lambda>x. UserID x = userID) (Users st) = Some u"
    and "FavouriteGenres u = []"
  shows "resp (GetRecommendedMovies e r st userID) =
           JSON 200 (NoFavouritesBody ''No favorite genres set for user'' [] []) \<and>
         status (resp (GetRecommendedMovies e r st userID)) = 200 \<and>
         spawned (GetRecommendedMovies e r st userID) = False \<and>
         store_after (GetRecommendedMovies e r st userID) = st"
proof -
  have "getUserById e st userID = Inr u"
    using assms(2,3) by (rule getUserById_found)
  with assms(1,4) show ?thesis
    by (simp add: GetRecommendedMovies_def JSON_def)
qed

text \<open>On the catalog: Bob has no favourite genres.\<close>

theorem GetRecommendedMovies_no_favourites_witness:
  "''id2'' \<noteq> [] \<and> find_one_error healthy = None \<and>
   find (\<lambda>x. UserID x = ''id2'') (Users catalog) = Some bob \<and>
   FavouriteGenres bob = [] \<and>
   resp (GetRecommendedMovies healthy TimerFirst catalog ''id2'') =
     JSON 200 (NoFavouritesBody ''No favorite genres set for user'' [] [])"
proof -
  have h1: "''id2'' \<noteq> []" by simp
  have h2: "find_one_error healthy = None" by (simp add: healthy_def)
  have h3: "find (\<lambda>x. UserID x = ''id2'') (Users catalog) = Some bob"
    by (simp add: catalog_def ann_def bob_def zero_user_def)
  have h4: "FavouriteGenres bob = []" by (simp add: bob_def zero_user_def)
  from GetRecommendedMovies_no_favourites[OF h1 h2 h3 h4, of TimerFirst] h1 h2 h3 h4
  show ?thesis by blast
qed

section \<open>Registration\<close>

lemma register_worker_duplicate:
  assumes "\<exists>x \<in> set (Users st). Email x = Email u"
  shows "register_worker e st u h =
     (case count_error e of
        Some msg \<Rightarrow> (Failed msg, st)
      | None \<Rightarrow> (Failed ''User with this email already exists'', st))"
proof -
  from assms have "filter (\<lambda>x. Email x = Email u) (Users st) \<noteq> []"
    by (simp add: filter_empty_conv)
  then have "0 < length (filter (\<lambda>x. Email x = Email u) (Users st))"
    by simp
  then show ?thesis
    by (simp add: register_worker_def CountDocuments_def duplicate_email_def
          split: option.splits)
qed

text \<open>
  Claim C3, as amended. A registration whose email matches a user record of the store,
  run on its own against that store, inserts nothing, whatever the environment and the
  race. The answer is 409 with the duplicate message only when the password hashes, the
  count query succeeds and the worker's report is received first. A password that does
  not hash is answered 500 before the store is asked; a failed count query is answered
  500 with its text (409 if that text is the duplicate message); and when the timer
  fires first the answer is 408.
\<close>

theorem RegisterUser_duplicate_email:
  assumes "\<exists>x \<in> set (Users st). Email x = Email u"
  shows "store_after (RegisterUser e r st (Some u)) = st \<and>
    (\<forall>err. HashPassword e (Password u) = Inl err \<longrightarrow>
       resp (RegisterUser e r st (Some u)) = JSON 500 (ErrorBody ''Failed to hash password'')) \<and>
    (\<forall>h. HashPassword e (Password u) = Inr h \<longrightarrow>
       resp (RegisterUser e TimerFirst st (Some u)) = JSON 408 (ErrorBody ''request timeout'') \<and>
       resp (RegisterUser e WorkerFirst st (Some u)) =
         (case count_error e of
            None \<Rightarrow> JSON 409 (ErrorBody ''User with this email already exists'')
          | Some msg \<Rightarrow>
              JSON (if msg = ''User with this email already exists'' then 409 else 500)
                (ErrorBody msg)))"
proof (intro conjI allI impI)
  show "store_after (RegisterUser e r st (Some u)) = st"
    by (simp add: RegisterUser_def register_worker_duplicate[OF assms] answer_def raced_def
          split: sum.splits option.splits)
next
  fix err
  assume "HashPassword e (Password u) = Inl err"
  then show "resp (RegisterUser e r st (Some u)) =
      JSON 500 (ErrorBody ''Failed to hash password'')"
    by (simp add: RegisterUser_def answer_def)
next
  fix h
  assume ok: "HashPassword e (Password u) = Inr h"
  then show "resp (RegisterUser e TimerFirst st (Some u)) =
      JSON 408 (ErrorBody ''request timeout'')"
    by (simp add: RegisterUser_def register_worker_duplicate[OF assms] raced_def
          select_first_def timeout_response_def split: option.splits)
  from ok show "resp (RegisterUser e WorkerFirst st (Some u)) =
         (case count_error e of
            None \<Rightarrow> JSON 409 (ErrorBody ''User with this email already exists'')
          | Some msg \<Rightarrow>
              JSON (if msg = ''User with this email already exists'' then 409 else 500)
                (ErrorBody msg))"
    by (simp add: RegisterUser_def register_worker_duplicate[OF assms] raced_def
          select_first_def register_failed_def split: option.splits)
qed

text \<open>
  Claim C3 as stated fails on the catalog. Bob's email is taken; a registration under it
  with a password of 73 bytes is answered 500, one whose count query fails is answered
  500, and one that loses the race against the timer is answered 408.
\<close>

theorem RegisterUser_duplicate_email_counterexample:
  "bob \<in> set (Users catalog) \<and> Email bob_long = Email bob \<and> Email bob_again = Email bob \<and>
   resp (RegisterUser healthy WorkerFirst catalog (Some bob_long)) =
     JSON 500 (ErrorBody ''Failed to hash password'') \<and>
   resp (RegisterUser unreachable WorkerFirst catalog (Some bob_again)) =
     JSON 500 (ErrorBody ''connection reset'') \<and>
   resp (RegisterUser healthy TimerFirst catalog (Some bob_again)) =
     JSON 408 (ErrorBody ''request timeout'')"
  by (simp add: RegisterUser_def HashPassword_def register_worker_def CountDocuments_def
        select_first_def register_failed_def raced_def answer_def timeout_response_def
        healthy_def unreachable_def catalog_def bob_long_def bob_again_def ann_def bob_def
        zero_user_def duplicate_email_def)

text \<open>The amended claim on the catalog: a second registration under Bob's email.\<close>

theorem RegisterUser_duplicate_email_witness:
  "bob \<in> set (Users catalog) \<and> Email bob = Email bob_again \<and>
   HashPassword healthy (Password bob_again) = Inr ''h:pw'' \<and> count_error healthy = None \<and>
   store_after (RegisterUser healthy WorkerFirst catalog (Some bob_again)) = catalog \<and>
   resp (RegisterUser healthy WorkerFirst catalog (Some bob_again)) =
     JSON 409 (ErrorBody ''User with this email already exists'') \<and>
   resp (RegisterUser healthy TimerFirst catalog (Some bob_again)) =
     JSON 408 (ErrorBody ''request timeout'') \<and>
   Email bob = Email bob_long \<and>
   HashPassword healthy (Password bob_long) = Inl ''bcrypt: password length exceeds 72 bytes'' \<and>
   store_after (RegisterUser healthy WorkerFirst catalog (Some bob_long)) = catalog \<and>
   resp (RegisterUser healthy WorkerFirst catalog (Some bob_long)) =
     JSON 500 (ErrorBody ''Failed to hash password'')"
proof -
  have m: "bob \<in> set (Users catalog)" by (simp add: catalog_def)
  have e: "Email bob = Email bob_again" by (simp add: bob_def bob_again_def)
  have e': "Email bob = Email bob_long" by (simp add: bob_def bob_again_def bob_long_def)
  from m e have h: "\<exists>x \<in> set (Users catalog). Email x = Email bob_again" by blast
  from m e' have h': "\<exists>x \<in> set (Users catalog). Email x = Email bob_long" by blast
  have hp: "HashPassword healthy (Password bob_again) = Inr ''h:pw''"
    by (simp add: HashPassword_def healthy_def bob_again_def)
  have hp': "HashPassword healthy (Password bob_long) =
      Inl ''bcrypt: password length exceeds 72 bytes''"
    by (simp add: HashPassword_def healthy_def bob_long_def)
  have ce: "count_error healthy = None" by (simp add: healthy_def)
  note T = RegisterUser_duplicate_email[OF h, of healthy WorkerFirst]
  note T' = RegisterUser_duplicate_email[OF h', of healthy WorkerFirst]
  from T have s: "store_after (RegisterUser healthy WorkerFirst catalog (Some bob_again)) = catalog"
    by blast
  from T hp have t: "resp (RegisterUser healthy TimerFirst catalog (Some bob_again)) =
     JSON 408 (ErrorBody ''request timeout'')"
    by blast
  from T hp have "resp (RegisterUser healthy WorkerFirst catalog (Some bob_again)) =
         (case count_error healthy of
            None \<Rightarrow> JSON 409 (ErrorBody ''User with this email already exists'')
          | Some msg \<Rightarrow>
              JSON (if msg = ''User with this email already exists'' then 409 else 500)
                (ErrorBody msg))"
    by blast
  with ce have r: "resp (RegisterUser healthy WorkerFirst catalog (Some bob_again)) =
     JSON 409 (ErrorBody ''User with this email already exists'')"
    by simp
  from T' have s': "store_after (RegisterUser healthy WorkerFirst catalog (Some bob_long)) = catalog"
    by blast
  from T' hp' have r': "resp (RegisterUser healthy WorkerFirst catalog (Some bob_long)) =
     JSON 500 (ErrorBody ''Failed to hash password'')"
    by blast
  from m e hp ce s r t e' hp' s' r' show ?thesis by blast
qed

text \<open>A registration under a new email is stored and answered 201.\<close>

lemma RegisterUser_new_email:
  "RegisterUser healthy WorkerFirst catalog (Some cy) =
     raced (catalog\<lparr>Users := [ann, bob,
               cy\<lparr>UserID := ''id3'', CreatedAt := 1, UpdatedAt := 1, Password := ''h:pw''\<rparr>]\<rparr>)
       (JSON 201 (RegisteredBody ''a.id3'' ''id3'' ''Cy Fox'' ''cy@x.io'' ''USER'' []))"
  by (simp add: RegisterUser_def HashPassword_def register_worker_def CountDocuments_def
        InsertOne_def select_first_def registered_def healthy_def catalog_def cy_def
        ann_def bob_def zero_user_def required_user_fields_def Let_def)

section \<open>Login\<close>

lemma login_worker_no_document:
  assumes "find_one_error e = None" and "find (\<lambda>u. Email u = login_Email l) (Users st) = None"
  shows "login_worker e st l = (Failed ''Invalid credentials'', st)"
  using assms by (simp add: login_worker_def FindOneDecode_def)

lemma login_worker_wrong_password:
  assumes "find_one_error e = None" and "find (\<lambda>u. Email u = login_Email l) (Users st) = Some u"
    and "\<not> bcrypt_matches e (Password u) (login_Password l)"
  shows "login_worker e st l = (Failed ''Wrong Password'', st)"
  using assms by (simp add: login_worker_def FindOneDecode_def)

lemma Login_failed:
  assumes "login_worker e st l = (Failed msg, st')"
  shows "Login e r st (Some l) =
     raced st' (case r of WorkerFirst \<Rightarrow> JSON 401 (ErrorBody msg)
                        | TimerFirst \<Rightarrow> JSON 408 (ErrorBody ''timeout''))"
  using assms by (simp add: Login_def select_first_def split: race.splits)

lemma Login_status: "status (resp (Login e r st bound)) \<in> {200, 400, 401, 408}"
proof (cases bound)
  case None
  then show ?thesis by (simp add: Login_def answer_def JSON_def)
next
  case (Some l)
  obtain m st' where w: "login_worker e st l = (m, st')" by (cases "login_worker e st l")
  show ?thesis
    using Some w
    by (cases r; cases m) (simp_all add: Login_def raced_def select_first_def JSON_def)
qed

text \<open>
  Claim C1, as amended. With a lookup that does not fail, a login under an email of no
  record and a login under the email of a record whose password check fails are both
  answered 401 with an error body when the worker reports first (408 when the timer fires
  first). The text is \<open>"Invalid credentials"\<close> in the first case and \<open>"Wrong Password"\<close> in the
  second.
\<close>

theorem Login_failure_texts:
  assumes "find_one_error e = None"
  shows
   "(find (\<lambda>u. Email u = login_Email l) (Users st) = None \<longrightarrow>
       resp (Login e r st (Some l)) =
         (case r of WorkerFirst \<Rightarrow> JSON 401 (ErrorBody ''Invalid credentials'')
                  | TimerFirst \<Rightarrow> JSON 408 (ErrorBody ''timeout''))) \<and>
    (\<forall>u. find (\<lambda>u. Email u = login_Email l) (Users st) = Some u \<and>
         \<not> bcrypt_matches e (Password u) (login_Password l) \<longrightarrow>
       resp (Login e r st (Some l)) =
         (case r of WorkerFirst \<Rightarrow> JSON 401 (ErrorBody ''Wrong Password'')
                  | TimerFirst \<Rightarrow> JSON 408 (ErrorBody ''timeout'')))"
  using assms
  by (auto simp: Login_failed[OF login_worker_no_document]
        Login_failed[OF login_worker_wrong_password] raced_def)

text \<open>
  Claim C1 as stated fails on the catalog: a login under an unknown email and a login
  under Ann's email with a mistyped password get different texts.
\<close>

theorem Login_same_text_counterexample:
  "resp (Login healthy WorkerFirst catalog (Some stranger)) =
     JSON 401 (ErrorBody ''Invalid credentials'') \<and>
   resp (Login healthy WorkerFirst catalog (Some ann_mistyped)) =
     JSON 401 (ErrorBody ''Wrong Password'') \<and>
   body (resp (Login healthy WorkerFirst catalog (Some stranger))) \<noteq>
   body (resp (Login healthy WorkerFirst catalog (Some ann_mistyped)))"
  by (simp add: Login_def login_worker_def FindOneDecode_def select_first_def raced_def
        healthy_def catalog_def ann_def bob_def zero_user_def stranger_def ann_mistyped_def
        JSON_def)

text \<open>The amended claim on the same two logins.\<close>

theorem Login_failure_texts_witness:
  "find_one_error healthy = None \<and>
   find (\<lambda>u. Email u = login_Email stranger) (Users catalog) = None \<and>
   find (\<lambda>u. Email u = login_Email ann_mistyped) (Users catalog) = Some ann \<and>
   \<not> bcrypt_matches healthy (Password ann) (login_Password ann_mistyped) \<and>
   resp (Login healthy WorkerFirst catalog (Some stranger)) =
     JSON 401 (ErrorBody ''Invalid credentials'') \<and>
   resp (Login healthy TimerFirst catalog (Some ann_mistyped)) =
     JSON 408 (ErrorBody ''timeout'') \<and>
   resp (Login healthy WorkerFirst catalog (Some ann_mistyped)) =
     JSON 401 (ErrorBody ''Wrong Password'')"
proof -
  have h: "find_one_error healthy = None" by (simp add: healthy_def)
  have a: "find (\<lambda>u. Email u = login_Email stranger) (Users catalog) = None"
    by (simp add: catalog_def ann_def bob_def zero_user_def stranger_def)
  have b: "find (\<lambda>u. Email u = login_Email ann_mistyped) (Users catalog) = Some ann"
    by (simp add: catalog_def ann_def bob_def zero_user_def ann_mistyped_def)
  have c: "\<not> bcrypt_matches healthy (Password ann) (login_Password ann_mistyped)"
    by (simp add: healthy_def ann_def ann_mistyped_def)
  from Login_failure_texts[OF h, of stranger catalog WorkerFirst] a
  have d: "resp (Login healthy WorkerFirst catalog (Some stranger)) =
     JSON 401 (ErrorBody ''Invalid credentials'')"
    by simp
  from Login_failure_texts[OF h, of ann_mistyped catalog TimerFirst] b c
  have t: "resp (Login healthy TimerFirst catalog (Some ann_mistyped)) =
     JSON 408 (ErrorBody ''timeout'')"
    by simp
  from Login_failure_texts[OF h, of ann_mistyped catalog WorkerFirst] b c
  have f: "resp (Login healthy WorkerFirst catalog (Some ann_mistyped)) =
     JSON 401 (ErrorBody ''Wrong Password'')"
    by simp
  from h a b c d t f show ?thesis by blast
qed

text \<open>The right password is answered 200 with the projection and both tokens.\<close>

lemma Login_ann:
  "resp (Login healthy WorkerFirst catalog (Some ann_login)) =
     JSON 200 (LoginBody \<lparr>resp_UserID = ''id1'', resp_FirstName = ''Ann'',
       resp_LastName = ''Lee'', resp_Email = ''ann@x.io'', resp_Role = ''USER'',
       resp_FavouriteGenres = [action], resp_Token = ''a.id1'',
       resp_RefreshToken = ''r.id1''\<rparr>)"
  by (simp add: Login_def login_worker_def issue_tokens_def FindOneDecode_def
        UpdateAllTokens_def select_first_def raced_def healthy_def catalog_def ann_def
        bob_def zero_user_def ann_login_def)

text \<open>What \<open>user\<close> holds after a lookup that failed.\<close>

lemma FindOneDecode_store_failure:
  assumes "find_one_error e = Some (StoreFailure msg)"
  shows "FindOneDecode e coll flt target = (Some (DriverError msg), target)"
  using assms by (simp add: FindOneDecode_def)

lemma FindOneDecode_decode_failure:
  assumes "find_one_error e = Some (DecodeFailure msg fs)" and "find flt coll = Some doc"
  shows "FindOneDecode e coll flt target = (Some (DriverError msg), decode_fields doc fs target)"
  using assms by (simp add: FindOneDecode_def)

lemma login_worker_driver_error:
  assumes "FindOneDecode e (Users st) (\<lambda>u. Email u = login_Email l) zero_user =
      (Some (DriverError msg), held)"
  shows "login_worker e st l =
     (if bcrypt_matches e (Password held) (login_Password l) then issue_tokens e st held
      else (Failed ''Wrong Password'', st))"
  using assms by (simp add: login_worker_def)

text \<open>
  Claim C10, as amended. When the lookup of \<open>Login\<close> fails with an error that is not
  \<open>ErrNoDocuments\<close>, the worker does not stop: it checks the submitted password against the
  hash that \<open>user\<close> holds after the failed \<open>Decode\<close>, and goes on to issue tokens if it
  matches. After a failure of the lookup itself \<open>user\<close> is zero-valued and that hash is
  empty; after a decode error it is what the fields decoded before the error make of the
  zero value, the stored hash if the password field is among them. A failed check is
  answered 401 with \<open>"Wrong Password"\<close> when the worker's report is received first, 408 when
  the timer fires first. \<open>Login\<close> never answers 500.
\<close>

theorem Login_lookup_error:
  "(find_one_error e = Some (StoreFailure msg) \<longrightarrow>
      Password zero_user = [] \<and>
      login_worker e st l =
        (if bcrypt_matches e (Password zero_user) (login_Password l)
         then issue_tokens e st zero_user
         else (Failed ''Wrong Password'', st)) \<and>
      (\<not> bcrypt_matches e (Password zero_user) (login_Password l) \<longrightarrow>
         resp (Login e WorkerFirst st (Some l)) = JSON 401 (ErrorBody ''Wrong Password'') \<and>
         resp (Login e TimerFirst st (Some l)) = JSON 408 (ErrorBody ''timeout''))) \<and>
   (find_one_error e = Some (DecodeFailure msg fs) \<and>
    find (\<lambda>u. Email u = login_Email l) (Users st) = Some doc \<longrightarrow>
      login_worker e st l =
        (if bcrypt_matches e (Password (decode_fields doc fs zero_user)) (login_Password l)
         then issue_tokens e st (decode_fields doc fs zero_user)
         else (Failed ''Wrong Password'', st)) \<and>
      (\<not> bcrypt_matches e (Password (decode_fields doc fs zero_user)) (login_Password l) \<longrightarrow>
         resp (Login e WorkerFirst st (Some l)) = JSON 401 (ErrorBody ''Wrong Password'') \<and>
         resp (Login e TimerFirst st (Some l)) = JSON 408 (ErrorBody ''timeout''))) \<and>
   status (resp (Login e r st bound)) \<noteq> 500"
proof -
  have never: "status (resp (Login e r st bound)) \<noteq> 500"
    using Login_status[of e r st bound] by auto
  have store: "find_one_error e = Some (StoreFailure msg) \<longrightarrow>
      Password zero_user = [] \<and>
      login_worker e st l =
        (if bcrypt_matches e (Password zero_user) (login_Password l)
         then issue_tokens e st zero_user
         else (Failed ''Wrong Password'', st)) \<and>
      (\<not> bcrypt_matches e (Password zero_user) (login_Password l) \<longrightarrow>
         resp (Login e WorkerFirst st (Some l)) = JSON 401 (ErrorBody ''Wrong Password'') \<and>
         resp (Login e TimerFirst st (Some l)) = JSON 408 (ErrorBody ''timeout''))"
  proof
    assume f: "find_one_error e = Some (StoreFailure msg)"
    note w = login_worker_driver_error[OF FindOneDecode_store_failure[OF f]]
    have z: "Password zero_user = []" by (simp add: zero_user_def)
    have "\<not> bcrypt_matches e (Password zero_user) (login_Password l) \<longrightarrow>
         resp (Login e WorkerFirst st (Some l)) = JSON 401 (ErrorBody ''Wrong Password'') \<and>
         resp (Login e TimerFirst st (Some l)) = JSON 408 (ErrorBody ''timeout'')"
      by (simp add: Login_def w raced_def select_first_def)
    with z w show "Password zero_user = [] \<and>
      login_worker e st l =
        (if bcrypt_matches e (Password zero_user) (login_Password l)
         then issue_tokens e st zero_user
         else (Failed ''Wrong Password'', st)) \<and>
      (\<not> bcrypt_matches e (Password zero_user) (login_Password l) \<longrightarrow>
         resp (Login e WorkerFirst st (Some l)) = JSON 401 (ErrorBody ''Wrong Password'') \<and>
         resp (Login e TimerFirst st (Some l)) = JSON 408 (ErrorBody ''timeout''))"
      by blast
  qed
  have decode: "find_one_error e = Some (DecodeFailure msg fs) \<and>
    find (\<lambda>u. Email u = login_Email l) (Users st) = Some doc \<longrightarrow>
      login_worker e st l =
        (if bcrypt_matches e (Password (decode_fields doc fs zero_user)) (login_Password l)
         then issue_tokens e st (decode_fields doc fs zero_user)
         else (Failed ''Wrong Password'', st)) \<and>
      (\<not> bcrypt_matches e (Password (decode_fields doc fs zero_user)) (login_Password l) \<longrightarrow>
         resp (Login e WorkerFirst st (Some l)) = JSON 401 (ErrorBody ''Wrong Password'') \<and>
         resp (Login e TimerFirst st (Some l)) = JSON 408 (ErrorBody ''timeout''))"
  proof
    assume f: "find_one_error e = Some (DecodeFailure msg fs) \<and>
      find (\<lambda>u. Email u = login_Email l) (Users st) = Some doc"
    then have d: "FindOneDecode e (Users st) (\<lambda>u. Email u = login_Email l) zero_user =
        (Some (DriverError msg), decode_fields doc fs zero_user)"
      by (intro FindOneDecode_decode_failure) simp_all
    note w = login_worker_driver_error[OF d]
    have "\<not> bcrypt_matches e (Password (decode_fields doc fs zero_user)) (login_Password l) \<longrightarrow>
         resp (Login e WorkerFirst st (Some l)) = JSON 401 (ErrorBody ''Wrong Password'') \<and>
         resp (Login e TimerFirst st (Some l)) = JSON 408 (ErrorBody ''timeout'')"
      by (simp add: Login_def w raced_def select_first_def)
    with w show "login_worker e st l =
        (if bcrypt_matches e (Password (decode_fields doc fs zero_user)) (login_Password l)
         then issue_tokens e st (decode_fields doc fs zero_user)
         else (Failed ''Wrong Password'', st)) \<and>
      (\<not> bcrypt_matches e (Password (decode_fields doc fs zero_user)) (login_Password l) \<longrightarrow>
         resp (Login e WorkerFirst st (Some l)) = JSON 401 (ErrorBody ''Wrong Password'') \<and>
         resp (Login e TimerFirst st (Some l)) = JSON 408 (ErrorBody ''timeout''))"
      by blast
  qed
  from store decode never show ?thesis by blast
qed

text \<open>
  Claim C10 as stated fails on the catalog: when Ann's document stops decoding at her
  favourite genres, the password field is already filled with the stored hash, and her
  right password is answered 200 with both tokens, not 401.
\<close>

theorem Login_lookup_error_counterexample:
  "find_one_error half_decoded =
     Some (DecodeFailure ''error decoding key favourite_genres'' before_genres) \<and>
   Password (decode_fields ann before_genres zero_user) = ''h:secret'' \<and>
   resp (Login half_decoded WorkerFirst catalog (Some ann_login)) =
     JSON 200 (LoginBody \<lparr>resp_UserID = ''id1'', resp_FirstName = ''Ann'',
       resp_LastName = ''Lee'', resp_Email = ''ann@x.io'', resp_Role = ''USER'',
       resp_FavouriteGenres = [], resp_Token = ''a.id1'', resp_RefreshToken = ''r.id1''\<rparr>)"
  by (simp add: Login_def login_worker_def issue_tokens_def FindOneDecode_def
        decode_fields_def before_genres_def UpdateAllTokens_def select_first_def raced_def
        half_decoded_def healthy_def catalog_def ann_def bob_def zero_user_def
        ann_login_def)

text \<open>
  The amended claim on the catalog: with a lookup that fails, even Ann's right password
  is answered 401; with a document that stops decoding after the password field, a
  mistyped password is answered 401 and the right one goes on to the tokens.
\<close>

theorem Login_lookup_error_witness:
  "find_one_error broken_lookup = Some (StoreFailure ''connection reset'') \<and>
   \<not> bcrypt_matches broken_lookup (Password zero_user) (login_Password ann_login) \<and>
   login_worker broken_lookup catalog ann_login = (Failed ''Wrong Password'', catalog) \<and>
   resp (Login broken_lookup WorkerFirst catalog (Some ann_login)) =
     JSON 401 (ErrorBody ''Wrong Password'') \<and>
   find_one_error half_decoded =
     Some (DecodeFailure ''error decoding key favourite_genres'' before_genres) \<and>
   find (\<lambda>u. Email u = login_Email ann_mistyped) (Users catalog) = Some ann \<and>
   \<not> bcrypt_matches half_decoded
       (Password (decode_fields ann before_genres zero_user))
       (login_Password ann_mistyped) \<and>
   resp (Login half_decoded WorkerFirst catalog (Some ann_mistyped)) =
     JSON 401 (ErrorBody ''Wrong Password'') \<and>
   find (\<lambda>u. Email u = login_Email ann_login) (Users catalog) = Some ann \<and>
   bcrypt_matches half_decoded
       (Password (decode_fields ann before_genres zero_user))
       (login_Password ann_login) \<and>
   login_worker half_decoded catalog ann_login =
     issue_tokens half_decoded catalog (decode_fields ann before_genres zero_user) \<and>
   status (resp (Login half_decoded WorkerFirst catalog (Some ann_login))) \<noteq> 500"
proof -
  let ?fs = before_genres
  note B = Login_lookup_error[where e = broken_lookup and msg = "''connection reset''"
      and st = catalog and l = ann_login]
  note M = Login_lookup_error[where e = half_decoded
      and msg = "''error decoding key favourite_genres''" and fs = ?fs
      and st = catalog and l = ann_mistyped and doc = ann]
  note A = Login_lookup_error[where e = half_decoded
      and msg = "''error decoding key favourite_genres''" and fs = ?fs
      and st = catalog and l = ann_login and doc = ann and r = WorkerFirst
      and bound = "Some ann_login"]
  have a: "find_one_error broken_lookup = Some (StoreFailure ''connection reset'')"
    by (simp add: broken_lookup_def)
  have b: "\<not> bcrypt_matches broken_lookup (Password zero_user) (login_Password ann_login)"
    by (simp add: broken_lookup_def healthy_def zero_user_def)
  from B a b have 1: "login_worker broken_lookup catalog ann_login =
      (Failed ''Wrong Password'', catalog)" by simp
  from B a b have 2: "resp (Login broken_lookup WorkerFirst catalog (Some ann_login)) =
     JSON 401 (ErrorBody ''Wrong Password'')" by blast
  have c: "find_one_error half_decoded = Some (DecodeFailure
      ''error decoding key favourite_genres'' ?fs)"
    by (simp add: half_decoded_def)
  have d: "find (\<lambda>u. Email u = login_Email ann_mistyped) (Users catalog) = Some ann"
    by (simp add: catalog_def ann_def zero_user_def ann_mistyped_def)
  have d': "find (\<lambda>u. Email u = login_Email ann_login) (Users catalog) = Some ann"
    by (simp add: catalog_def ann_def zero_user_def ann_login_def)
  have f: "\<not> bcrypt_matches half_decoded (Password (decode_fields ann ?fs zero_user))
      (login_Password ann_mistyped)"
    by (simp add: half_decoded_def healthy_def decode_fields_def before_genres_def ann_def
          zero_user_def ann_mistyped_def)
  have g: "bcrypt_matches half_decoded (Password (decode_fields ann ?fs zero_user))
      (login_Password ann_login)"
    by (simp add: half_decoded_def healthy_def decode_fields_def before_genres_def ann_def
          zero_user_def ann_login_def)
  from M c d f have 3: "resp (Login half_decoded WorkerFirst catalog (Some ann_mistyped)) =
     JSON 401 (ErrorBody ''Wrong Password'')" by blast
  from A c d' g have 4: "login_worker half_decoded catalog ann_login =
     issue_tokens half_decoded catalog (decode_fields ann ?fs zero_user)" by simp
  from A have 5: "status (resp (Login half_decoded WorkerFirst catalog (Some ann_login))) \<noteq> 500"
    by blast
  from a b 1 2 c d f 3 d' g 4 5 show ?thesis by blast
qed


section \<open>Input validation and the race\<close>

lemma refused_answer: "refused_at_once st (\<lambda>r. answer st 400 obj)"
  by (simp add: refused_at_once_def answer_def JSON_def)

lemma register_worker_violation:
  assumes "validate_user e (u\<lparr>UserID := new_object_id e, CreatedAt := now e,
           UpdatedAt := now e, Password := h\<rparr>) = v # vs"
  shows "register_worker e st u h =
     (case count_error e of
        Some msg \<Rightarrow> (Failed msg, st)
      | None \<Rightarrow>
          if \<exists>x \<in> set (Users st). Email x = Email u
          then (Failed ''User with this email already exists'', st)
          else (Failed (violations_text e (v # vs)), st))"
proof (cases "\<exists>x \<in> set (Users st). Email x = Email u")
  case True
  then show ?thesis
    by (simp add: register_worker_duplicate split: option.splits)
next
  case False
  then have "filter (\<lambda>x. Email x = Email u) (Users st) = []"
    by (simp add: filter_empty_conv)
  with False assms show ?thesis
    by (simp add: register_worker_def CountDocuments_def split: option.splits)
qed

text \<open>
  Claim C7, as amended. A body that does not bind is answered 400 whichever arm of a
  \<open>select\<close> would be ready first and whatever the driver would do, with the store as it
  was, in \<open>RegisterUser\<close>, \<open>Login\<close>, \<open>MakeMovies\<close> and \<open>AdminReviewUpdate\<close>; so is a violated
  field constraint in \<open>MakeMovies\<close> and \<open>AdminReviewUpdate\<close>. The field constraints of
  \<open>RegisterUser\<close> are the exception: they are checked in the raced worker, after the count
  query. With a password that hashes, a violation changes nothing in the store; when the
  timer fires first the answer is 408; when the worker reports first, a failed count
  query is answered before it (500 with its text), then a taken email (409), and only
  then the violation, with 500 and the validator's text (409 if a text is the duplicate
  message).
\<close>

theorem validation_before_spawn:
  "refused_at_once st (\<lambda>r. RegisterUser e r st None) \<and>
   refused_at_once st (\<lambda>r. Login e r st None) \<and>
   refused_at_once st (\<lambda>r. MakeMovies e r st None) \<and>
   (validate_movie e m \<noteq> [] \<longrightarrow> refused_at_once st (\<lambda>r. MakeMovies e r st (Some m))) \<and>
   refused_at_once st (\<lambda>r. AdminReviewUpdate e st movieId None) \<and>
   (validate_req q \<noteq> [] \<longrightarrow>
      refused_at_once st (\<lambda>r. AdminReviewUpdate e st movieId (Some q))) \<and>
   (HashPassword e (Password u) = Inr h \<and>
    validate_user e (u\<lparr>UserID := new_object_id e, CreatedAt := now e,
       UpdatedAt := now e, Password := h\<rparr>) = v # vs \<longrightarrow>
      store_after (RegisterUser e r st (Some u)) = st \<and>
      resp (RegisterUser e TimerFirst st (Some u)) = JSON 408 (ErrorBody ''request timeout'') \<and>
      resp (RegisterUser e WorkerFirst st (Some u)) =
        (case count_error e of
           Some msg \<Rightarrow>
             JSON (if msg = ''User with this email already exists'' then 409 else 500)
               (ErrorBody msg)
         | None \<Rightarrow>
             if \<exists>x \<in> set (Users st). Email x = Email u
             then JSON 409 (ErrorBody ''User with this email already exists'')
             else JSON (if violations_text e (v # vs) = ''User with this email already exists''
                        then 409 else 500)
                    (ErrorBody (violations_text e (v # vs)))))"
proof -
  have 1: "refused_at_once st (\<lambda>r. RegisterUser e r st None)"
    by (simp add: RegisterUser_def refused_answer)
  have 2: "refused_at_once st (\<lambda>r. Login e r st None)"
    by (simp add: Login_def refused_answer)
  have 3: "refused_at_once st (\<lambda>r. MakeMovies e r st None)"
    by (simp add: MakeMovies_def refused_answer)
  have 4: "validate_movie e m \<noteq> [] \<longrightarrow> refused_at_once st (\<lambda>r. MakeMovies e r st (Some m))"
    by (cases "validate_movie e m") (simp_all add: MakeMovies_def refused_answer)
  have 5: "refused_at_once st (\<lambda>r. AdminReviewUpdate e st movieId None)"
    by (simp add: AdminReviewUpdate_def refused_answer)
  have 6: "validate_req q \<noteq> [] \<longrightarrow>
      refused_at_once st (\<lambda>r. AdminReviewUpdate e st movieId (Some q))"
    by (cases "validate_req q") (simp_all add: AdminReviewUpdate_def refused_answer)
  have 7: "HashPassword e (Password u) = Inr h \<and>
    validate_user e (u\<lparr>UserID := new_object_id e, CreatedAt := now e,
       UpdatedAt := now e, Password := h\<rparr>) = v # vs \<longrightarrow>
      store_after (RegisterUser e r st (Some u)) = st \<and>
      resp (RegisterUser e TimerFirst st (Some u)) = JSON 408 (ErrorBody ''request timeout'') \<and>
      resp (RegisterUser e WorkerFirst st (Some u)) =
        (case count_error e of
           Some msg \<Rightarrow>
             JSON (if msg = ''User with this email already exists'' then 409 else 500)
               (ErrorBody msg)
         | None \<Rightarrow>
             if \<exists>x \<in> set (Users st). Email x = Email u
             then JSON 409 (ErrorBody ''User with this email already exists'')
             else JSON (if violations_text e (v # vs) = ''User with this email already exists''
                        then 409 else 500)
                    (ErrorBody (violations_text e (v # vs))))"
  proof
    assume a: "HashPassword e (Password u) = Inr h \<and>
      validate_user e (u\<lparr>UserID := new_object_id e, CreatedAt := now e,
        UpdatedAt := now e, Password := h\<rparr>) = v # vs"
    then have w: "register_worker e st u h =
     (case count_error e of
        Some msg \<Rightarrow> (Failed msg, st)
      | None \<Rightarrow>
          if \<exists>x \<in> set (Users st). Email x = Email u
          then (Failed ''User with this email already exists'', st)
          else (Failed (violations_text e (v # vs)), st))"
      by (intro register_worker_violation) simp
    from a show "store_after (RegisterUser e r st (Some u)) = st \<and>
      resp (RegisterUser e TimerFirst st (Some u)) = JSON 408 (ErrorBody ''request timeout'') \<and>
      resp (RegisterUser e WorkerFirst st (Some u)) =
        (case count_error e of
           Some msg \<Rightarrow>
             JSON (if msg = ''User with this email already exists'' then 409 else 500)
               (ErrorBody msg)
         | None \<Rightarrow>
             if \<exists>x \<in> set (Users st). Email x = Email u
             then JSON 409 (ErrorBody ''User with this email already exists'')
             else JSON (if violations_text e (v # vs) = ''User with this email already exists''
                        then 409 else 500)
                    (ErrorBody (violations_text e (v # vs))))"
      by (simp add: RegisterUser_def w raced_def select_first_def register_failed_def
            timeout_response_def split: option.splits)
  qed
  from 1 2 3 4 5 6 7 show ?thesis by blast
qed

text \<open>
  Claim C7 as stated fails on the catalog. A registration without a first name violates
  a field constraint, yet its answer comes out of the race: 500 through the error
  channel when the worker reports first, 408 when the timer fires first, and the text of
  the driver's error when the count query fails, which runs before the validation.
\<close>

theorem RegisterUser_validation_counterexample:
  "required_user_fields nameless = [(''FirstName'', ''required'')] \<and>
   resp (RegisterUser healthy WorkerFirst catalog (Some nameless)) =
     JSON 500 (ErrorBody (violations_text healthy [(''FirstName'', ''required'')])) \<and>
   resp (RegisterUser healthy TimerFirst catalog (Some nameless)) =
     JSON 408 (ErrorBody ''request timeout'') \<and>
   resp (RegisterUser unreachable WorkerFirst catalog (Some nameless)) =
     JSON 500 (ErrorBody ''connection reset'') \<and>
   \<not> refused_at_once catalog (\<lambda>r. RegisterUser healthy r catalog (Some nameless))"
  by (simp add: RegisterUser_def HashPassword_def register_worker_def CountDocuments_def
        select_first_def register_failed_def raced_def timeout_response_def healthy_def
        unreachable_def catalog_def nameless_def ann_def bob_def zero_user_def
        required_user_fields_def refused_at_once_def JSON_def Let_def)

text \<open>
  The amended claim on the catalog: a movie without a title and a review without a text
  are refused at once; the registration without a first name is answered out of the race.
\<close>

theorem validation_before_spawn_witness:
  "validate_movie healthy untitled \<noteq> [] \<and>
   refused_at_once catalog (\<lambda>r. MakeMovies healthy r catalog (Some untitled)) \<and>
   validate_req \<lparr>req_AdminReview = [], req_Rating = 5\<rparr> \<noteq> [] \<and>
   refused_at_once catalog
     (\<lambda>r. AdminReviewUpdate healthy catalog ''tt1''
        (Some \<lparr>req_AdminReview = [], req_Rating = 5\<rparr>)) \<and>
   refused_at_once catalog (\<lambda>r. RegisterUser healthy r catalog None) \<and>
   HashPassword healthy (Password nameless) = Inr ''h:pw'' \<and>
   validate_user healthy (nameless\<lparr>UserID := new_object_id healthy, CreatedAt := now healthy,
       UpdatedAt := now healthy, Password := ''h:pw''\<rparr>) = [(''FirstName'', ''required'')] \<and>
   store_after (RegisterUser healthy WorkerFirst catalog (Some nameless)) = catalog \<and>
   resp (RegisterUser healthy TimerFirst catalog (Some nameless)) =
     JSON 408 (ErrorBody ''request timeout'') \<and>
   status (resp (RegisterUser healthy WorkerFirst catalog (Some nameless))) = 500"
proof -
  note T = validation_before_spawn[where st = catalog and e = healthy and m = untitled
      and movieId = "''tt1''" and q = "\<lparr>req_AdminReview = [], req_Rating = 5\<rparr>"
      and u = nameless and h = "''h:pw''" and v = "(''FirstName'', ''required'')"
      and vs = "[]" and r = WorkerFirst]
  have a: "validate_movie healthy untitled \<noteq> []"
    by (simp add: validate_movie_def bounded_string_def untitled_def film_def)
  have b: "validate_req \<lparr>req_AdminReview = [], req_Rating = 5\<rparr> \<noteq> []"
    by (simp add: validate_req_def)
  have c: "HashPassword healthy (Password nameless) = Inr ''h:pw''"
    by (simp add: HashPassword_def healthy_def nameless_def)
  have g: "validate_user healthy (nameless\<lparr>UserID := new_object_id healthy,
       CreatedAt := now healthy, UpdatedAt := now healthy, Password := ''h:pw''\<rparr>) =
       [(''FirstName'', ''required'')]"
    by (simp add: healthy_def required_user_fields_def nameless_def zero_user_def)
  from T a have 1: "refused_at_once catalog (\<lambda>r. MakeMovies healthy r catalog (Some untitled))"
    by blast
  from T b have 2: "refused_at_once catalog
     (\<lambda>r. AdminReviewUpdate healthy catalog ''tt1''
        (Some \<lparr>req_AdminReview = [], req_Rating = 5\<rparr>))"
    by blast
  from T have 3: "refused_at_once catalog (\<lambda>r. RegisterUser healthy r catalog None)"
    by blast
  from T c g have 4: "store_after (RegisterUser healthy WorkerFirst catalog (Some nameless)) =
      catalog"
    and 5: "resp (RegisterUser healthy TimerFirst catalog (Some nameless)) =
     JSON 408 (ErrorBody ''request timeout'')"
    and 6: "resp (RegisterUser healthy WorkerFirst catalog (Some nameless)) =
        (case count_error healthy of
           Some msg \<Rightarrow>
             JSON (if msg = ''User with this email already exists'' then 409 else 500)
               (ErrorBody msg)
         | None \<Rightarrow>
             if \<exists>x \<in> set (Users catalog). Email x = Email nameless
             then JSON 409 (ErrorBody ''User with this email already exists'')
             else JSON (if violations_text healthy [(''FirstName'', ''required'')] =
                          ''User with this email already exists''
                        then 409 else 500)
                    (ErrorBody (violations_text healthy [(''FirstName'', ''required'')])))"
    by blast+
  from 6 have 7: "status (resp (RegisterUser healthy WorkerFirst catalog (Some nameless))) = 500"
    by (simp add: healthy_def catalog_def ann_def bob_def nameless_def zero_user_def JSON_def)
  from a b c g 1 2 3 4 5 7 show ?thesis by blast
qed

section \<open>Which store interactions are raced\<close>

lemma timer_decides_raced:
  "timer_decides (\<lambda>r. raced st (select_first r m f g (JSON 408 obj)))"
  by (simp add: timer_decides_def raced_def select_first_def JSON_def)

lemma find_worker_driver_error:
  assumes "find_error e = Some msg \<or> find_error e = None \<and> all_error e = Some msg"
  shows "find_worker e coll flt by_rank lim = Failed msg"
  using assms by (auto simp: find_worker_cases)

lemma AdminReviewUpdate_status:
  "status (resp (AdminReviewUpdate e st movieId bound)) \<in> {200, 400, 404, 500}"
proof (cases "movieId = []")
  case True
  then show ?thesis by (simp add: AdminReviewUpdate_def answer_def JSON_def)
next
  case False
  show ?thesis
  proof (cases bound)
    case None
    with False show ?thesis by (simp add: AdminReviewUpdate_def answer_def JSON_def)
  next
    case (Some q)
    show ?thesis
    proof (cases "validate_req q")
      case Nil
      with False Some show ?thesis
        by (simp add: AdminReviewUpdate_valid JSON_def split: option.splits)
    next
      case (Cons v vs)
      with False Some show ?thesis
        by (simp add: AdminReviewUpdate_invalid answer_def JSON_def)
    qed
  qed
qed

lemma getUserById_fault:
  assumes "find_one_error e = Some f"
  shows "\<exists>err. getUserById e st userID = Inl err"
  using assms
  by (cases f) (simp_all add: getUserById_def FindOneDecode_def split: option.splits)

text \<open>
  Claim C8, as amended. \<open>GetMovies\<close>, \<open>GetMovie\<close>, \<open>GetTopRatedMovies\<close>, \<open>GetMoviesByGenre\<close>,
  \<open>MakeMovies\<close>, \<open>RegisterUser\<close> and \<open>Login\<close>, once their input is accepted, race their store
  interaction against the timer: when the timer fires first the answer is 408, while the
  store ends as it does when the worker reports first; and an error that the worker
  reports first is answered as an error (500 with its text in the reading handlers, in
  \<open>MakeMovies\<close> and in \<open>RegisterUser\<close>, where the duplicate message gets 409; 401 in
  \<open>Login\<close>). \<open>AdminReviewUpdate\<close> is not raced: it never answers 408, and a failed
  \<open>UpdateOne\<close> is answered 500 with a fixed text. The user lookup of
  \<open>GetRecommendedMovies\<close> is not raced either: a failed lookup is answered 404 whichever arm
  would be ready first; the movie query that follows it is raced, with 408 on the timer
  and 500 with the text of a driver error.
\<close>

theorem store_work_delegation:
  "timer_decides (\<lambda>r. GetMovies e r st) \<and>
   timer_decides (\<lambda>r. GetMovie e r st imdb) \<and>
   timer_decides (\<lambda>r. GetTopRatedMovies e r st) \<and>
   (genreName \<noteq> [] \<longrightarrow> timer_decides (\<lambda>r. GetMoviesByGenre e r st genreName)) \<and>
   (validate_movie e m = [] \<longrightarrow> timer_decides (\<lambda>r. MakeMovies e r st (Some m))) \<and>
   (HashPassword e (Password u) = Inr h \<longrightarrow> timer_decides (\<lambda>r. RegisterUser e r st (Some u))) \<and>
   timer_decides (\<lambda>r. Login e r st (Some l)) \<and>
   (find_error e = Some msg \<or> find_error e = None \<and> all_error e = Some msg \<longrightarrow>
      resp (GetMovies e WorkerFirst st) = JSON 500 (ErrorBody msg) \<and>
      resp (GetMovie e WorkerFirst st imdb) = JSON 500 (ErrorBody msg) \<and>
      resp (GetTopRatedMovies e WorkerFirst st) = JSON 500 (ErrorBody msg) \<and>
      (genreName \<noteq> [] \<longrightarrow>
         resp (GetMoviesByGenre e WorkerFirst st genreName) = JSON 500 (ErrorBody msg))) \<and>
   (validate_movie e m = [] \<and> insert_error e = Some msg \<longrightarrow>
      resp (MakeMovies e WorkerFirst st (Some m)) = JSON 500 (ErrorBody msg)) \<and>
   (HashPassword e (Password u) = Inr h \<and> fst (register_worker e st u h) = Failed msg \<longrightarrow>
      resp (RegisterUser e WorkerFirst st (Some u)) =
        JSON (if msg = ''User with this email already exists'' then 409 else 500)
          (ErrorBody msg)) \<and>
   (fst (login_worker e st l) = Failed msg \<longrightarrow>
      resp (Login e WorkerFirst st (Some l)) = JSON 401 (ErrorBody msg)) \<and>
   status (resp (AdminReviewUpdate e st movieId bound)) \<noteq> 408 \<and>
   \<not> timer_decides (\<lambda>r. AdminReviewUpdate e st movieId bound) \<and>
   (movieId \<noteq> [] \<and> validate_req q = [] \<and> update_error e = Some msg \<longrightarrow>
      resp (AdminReviewUpdate e st movieId (Some q)) =
        JSON 500 (ErrorBody ''Failed to update movie'') \<and>
      store_after (AdminReviewUpdate e st movieId (Some q)) = st) \<and>
   (userID \<noteq> [] \<and> find_one_error e = Some f \<longrightarrow>
      resp (GetRecommendedMovies e r st userID) = JSON 404 (ErrorBody ''User not found'') \<and>
      \<not> timer_decides (\<lambda>r. GetRecommendedMovies e r st userID)) \<and>
   (userID \<noteq> [] \<and> getUserById e st userID = Inr usr \<and> FavouriteGenres usr \<noteq> [] \<longrightarrow>
      timer_decides (\<lambda>r. GetRecommendedMovies e r st userID) \<and>
      (find_error e = Some msg \<or> find_error e = None \<and> all_error e = Some msg \<longrightarrow>
         resp (GetRecommendedMovies e WorkerFirst st userID) = JSON 500 (ErrorBody msg)))"
proof -
  have 1: "timer_decides (\<lambda>r. GetMovies e r st)"
    by (simp add: GetMovies_def timeout_response_def timer_decides_raced)
  have 2: "timer_decides (\<lambda>r. GetMovie e r st imdb)"
    by (simp add: GetMovie_def timeout_response_def timer_decides_raced)
  have 3: "timer_decides (\<lambda>r. GetTopRatedMovies e r st)"
    by (simp add: GetTopRatedMovies_def timeout_response_def timer_decides_raced)
  have 4: "genreName \<noteq> [] \<longrightarrow> timer_decides (\<lambda>r. GetMoviesByGenre e r st genreName)"
    by (simp add: GetMoviesByGenre_def timeout_response_def timer_decides_raced)
  have 5: "validate_movie e m = [] \<longrightarrow> timer_decides (\<lambda>r. MakeMovies e r st (Some m))"
    by (cases "InsertOne e (Movies st) m")
       (simp_all add: MakeMovies_def timeout_response_def timer_decides_raced)
  have 6: "HashPassword e (Password u) = Inr h \<longrightarrow>
      timer_decides (\<lambda>r. RegisterUser e r st (Some u))"
    by (cases "register_worker e st u h")
       (simp add: RegisterUser_def timeout_response_def timer_decides_raced)
  have 7: "timer_decides (\<lambda>r. Login e r st (Some l))"
    by (cases "login_worker e st l") (simp add: Login_def timer_decides_raced)
  have 8: "find_error e = Some msg \<or> find_error e = None \<and> all_error e = Some msg \<longrightarrow>
      resp (GetMovies e WorkerFirst st) = JSON 500 (ErrorBody msg) \<and>
      resp (GetMovie e WorkerFirst st imdb) = JSON 500 (ErrorBody msg) \<and>
      resp (GetTopRatedMovies e WorkerFirst st) = JSON 500 (ErrorBody msg) \<and>
      (genreName \<noteq> [] \<longrightarrow>
         resp (GetMoviesByGenre e WorkerFirst st genreName) = JSON 500 (ErrorBody msg))"
    by (auto simp: GetMovies_def GetMovie_def GetTopRatedMovies_def GetMoviesByGenre_def
          find_worker_driver_error raced_def select_first_def)
  have 9: "validate_movie e m = [] \<and> insert_error e = Some msg \<longrightarrow>
      resp (MakeMovies e WorkerFirst st (Some m)) = JSON 500 (ErrorBody msg)"
    by (simp add: MakeMovies_def InsertOne_def raced_def select_first_def)
  have 10: "HashPassword e (Password u) = Inr h \<and> fst (register_worker e st u h) = Failed msg
      \<longrightarrow> resp (RegisterUser e WorkerFirst st (Some u)) =
        JSON (if msg = ''User with this email already exists'' then 409 else 500)
          (ErrorBody msg)"
    by (cases "register_worker e st u h")
       (simp add: RegisterUser_def raced_def select_first_def register_failed_def)
  have 11: "fst (login_worker e st l) = Failed msg \<longrightarrow>
      resp (Login e WorkerFirst st (Some l)) = JSON 401 (ErrorBody msg)"
    by (cases "login_worker e st l") (simp add: Login_def raced_def select_first_def)
  have 12: "status (resp (AdminReviewUpdate e st movieId bound)) \<noteq> 408"
    using AdminReviewUpdate_status[of e st movieId bound] by auto
  then have 13: "\<not> timer_decides (\<lambda>r. AdminReviewUpdate e st movieId bound)"
    by (simp add: timer_decides_def)
  have 14: "movieId \<noteq> [] \<and> validate_req q = [] \<and> update_error e = Some msg \<longrightarrow>
      resp (AdminReviewUpdate e st movieId (Some q)) =
        JSON 500 (ErrorBody ''Failed to update movie'') \<and>
      store_after (AdminReviewUpdate e st movieId (Some q)) = st"
    by (simp add: AdminReviewUpdate_valid)
  have 15: "userID \<noteq> [] \<and> find_one_error e = Some f \<longrightarrow>
      resp (GetRecommendedMovies e r st userID) = JSON 404 (ErrorBody ''User not found'') \<and>
      \<not> timer_decides (\<lambda>r. GetRecommendedMovies e r st userID)"
  proof
    assume a: "userID \<noteq> [] \<and> find_one_error e = Some f"
    then obtain err where "getUserById e st userID = Inl err"
      using getUserById_fault by blast
    with a show "resp (GetRecommendedMovies e r st userID) =
        JSON 404 (ErrorBody ''User not found'') \<and>
      \<not> timer_decides (\<lambda>r. GetRecommendedMovies e r st userID)"
      by (simp add: GetRecommendedMovies_def timer_decides_def JSON_def)
  qed
  have 16: "userID \<noteq> [] \<and> getUserById e st userID = Inr usr \<and> FavouriteGenres usr \<noteq> [] \<longrightarrow>
      timer_decides (\<lambda>r. GetRecommendedMovies e r st userID) \<and>
      (find_error e = Some msg \<or> find_error e = None \<and> all_error e = Some msg \<longrightarrow>
         resp (GetRecommendedMovies e WorkerFirst st userID) = JSON 500 (ErrorBody msg))"
    by (auto simp: GetRecommendedMovies_def select_first_def timeout_response_def JSON_def
          timer_decides_def find_worker_driver_error Let_def)
  from 1 2 3 4 5 6 7 8 9 10 11 12 13 14 15 16 show ?thesis by blast
qed

text \<open>
  Claim C8 as stated fails on the catalog. With every driver call failing and the timer
  arm ready first, a recommendation request is answered 404 by its user lookup, not 408;
  a review update is answered 500 with the handler's own text, and 200 when the update
  succeeds, whichever arm would be ready first: no timer decides either of them.
\<close>

theorem AdminReviewUpdate_inline_counterexample:
  "resp (GetRecommendedMovies unreachable TimerFirst catalog ''id1'') =
     JSON 404 (ErrorBody ''User not found'') \<and>
   \<not> timer_decides (\<lambda>r. GetRecommendedMovies unreachable r catalog ''id1'') \<and>
   resp (AdminReviewUpdate unreachable catalog ''tt4'' (Some praise)) =
     JSON 500 (ErrorBody ''Failed to update movie'') \<and>
   status (resp (AdminReviewUpdate healthy catalog ''tt4'' (Some praise))) = 200 \<and>
   \<not> timer_decides (\<lambda>r. AdminReviewUpdate healthy catalog ''tt4'' (Some praise)) \<and>
   timer_decides (\<lambda>r. GetMovies unreachable r catalog)"
  by (simp add: AdminReviewUpdate_def validate_req_def UpdateOne_def healthy_def
        unreachable_def catalog_def film_def set_review_def timer_decides_def JSON_def
        Let_def GetRecommendedMovies_def getUserById_def FindOneDecode_def ann_def bob_def
        zero_user_def praise_def GetMovies_def raced_def select_first_def
        timeout_response_def)

text \<open>
  The amended claim on the catalog, in the healthy environment and in one where every
  driver call fails.
\<close>

theorem store_work_delegation_witness:
  "timer_decides (\<lambda>r. GetMovies healthy r catalog) \<and>
   ''Drama'' \<noteq> [] \<and> timer_decides (\<lambda>r. GetMoviesByGenre healthy r catalog ''Drama'') \<and>
   validate_movie healthy premiere = [] \<and>
   timer_decides (\<lambda>r. MakeMovies healthy r catalog (Some premiere)) \<and>
   HashPassword healthy (Password cy) = Inr ''h:pw'' \<and>
   timer_decides (\<lambda>r. RegisterUser healthy r catalog (Some cy)) \<and>
   timer_decides (\<lambda>r. Login healthy r catalog (Some ann_login)) \<and>
   ''id1'' \<noteq> [] \<and> getUserById healthy catalog ''id1'' = Inr ann \<and>
   FavouriteGenres ann \<noteq> [] \<and>
   timer_decides (\<lambda>r. GetRecommendedMovies healthy r catalog ''id1'') \<and>
   find_error unreachable = Some ''connection reset'' \<and>
   resp (GetMovies unreachable WorkerFirst catalog) = JSON 500 (ErrorBody ''connection reset'') \<and>
   resp (GetMoviesByGenre unreachable WorkerFirst catalog ''Drama'') =
     JSON 500 (ErrorBody ''connection reset'') \<and>
   fst (register_worker unreachable catalog cy ''h:pw'') = Failed ''connection reset'' \<and>
   resp (RegisterUser unreachable WorkerFirst catalog (Some cy)) =
     JSON 500 (ErrorBody ''connection reset'') \<and>
   fst (login_worker healthy catalog ann_mistyped) = Failed ''Wrong Password'' \<and>
   resp (Login healthy WorkerFirst catalog (Some ann_mistyped)) =
     JSON 401 (ErrorBody ''Wrong Password'') \<and>
   validate_movie unreachable premiere = [] \<and>
   insert_error unreachable = Some ''connection reset'' \<and>
   resp (MakeMovies unreachable WorkerFirst catalog (Some premiere)) =
     JSON 500 (ErrorBody ''connection reset'') \<and>
   ''tt4'' \<noteq> [] \<and> validate_req praise = [] \<and>
   update_error unreachable = Some ''connection reset'' \<and>
   resp (AdminReviewUpdate unreachable catalog ''tt4'' (Some praise)) =
     JSON 500 (ErrorBody ''Failed to update movie'') \<and>
   find_one_error unreachable = Some (StoreFailure ''connection reset'') \<and>
   resp (GetRecommendedMovies unreachable TimerFirst catalog ''id1'') =
     JSON 404 (ErrorBody ''User not found'') \<and>
   find_error (healthy\<lparr>find_error := Some ''connection reset''\<rparr>) = Some ''connection reset'' \<and>
   getUserById (healthy\<lparr>find_error := Some ''connection reset''\<rparr>) catalog ''id1'' = Inr ann \<and>
   resp (GetRecommendedMovies (healthy\<lparr>find_error := Some ''connection reset''\<rparr>)
           WorkerFirst catalog ''id1'') = JSON 500 (ErrorBody ''connection reset'')"
proof -
  let ?slow = "healthy\<lparr>find_error := Some ''connection reset''\<rparr>"
  note H = store_work_delegation[where e = healthy and st = catalog and genreName = "''Drama''"
      and m = premiere and u = cy and h = "''h:pw''" and l = ann_login
      and userID = "''id1''" and usr = ann]
  note U = store_work_delegation[where e = unreachable and st = catalog and m = premiere
      and msg = "''connection reset''" and movieId = "''tt4''" and q = praise
      and userID = "''id1''" and r = TimerFirst and u = cy and h = "''h:pw''"
      and genreName = "''Drama''" and f = "StoreFailure ''connection reset''"]
  note L = store_work_delegation[where e = healthy and st = catalog and l = ann_mistyped
      and msg = "''Wrong Password''"]
  note S = store_work_delegation[where e = ?slow and st = catalog and userID = "''id1''"
      and usr = ann and msg = "''connection reset''"]
  have g: "''Drama'' \<noteq> []" and i: "''tt4'' \<noteq> []" and j: "''id1'' \<noteq> []" by simp_all
  have v: "validate_movie healthy premiere = []"
    by (simp add: validate_movie_def required_string_def bounded_string_def rune_count_def
          validate_genre_def healthy_def premiere_def film_def drama_def)
  have v': "validate_movie unreachable premiere = []"
    by (simp add: validate_movie_def required_string_def bounded_string_def rune_count_def
          validate_genre_def unreachable_def healthy_def premiere_def film_def drama_def)
  have hp: "HashPassword healthy (Password cy) = Inr ''h:pw''"
    by (simp add: HashPassword_def healthy_def cy_def)
  have hp': "HashPassword unreachable (Password cy) = Inr ''h:pw''"
    by (simp add: HashPassword_def unreachable_def healthy_def cy_def)
  have vq: "validate_req praise = []" by (simp add: validate_req_def praise_def)
  have gu: "getUserById healthy catalog ''id1'' = Inr ann"
    by (simp add: getUserById_def FindOneDecode_def healthy_def catalog_def ann_def zero_user_def)
  have gu': "getUserById ?slow catalog ''id1'' = Inr ann"
    by (simp add: getUserById_def FindOneDecode_def healthy_def catalog_def ann_def zero_user_def)
  have fg: "FavouriteGenres ann \<noteq> []" by (simp add: ann_def)
  have fe: "find_error unreachable = Some ''connection reset''"
    and ie: "insert_error unreachable = Some ''connection reset''"
    and ue: "update_error unreachable = Some ''connection reset''"
    and oe: "find_one_error unreachable = Some (StoreFailure ''connection reset'')"
    by (simp_all add: unreachable_def)
  have fe': "find_error ?slow = Some ''connection reset''" by simp
  have rw: "fst (register_worker unreachable catalog cy ''h:pw'') = Failed ''connection reset''"
    by (simp add: register_worker_def CountDocuments_def unreachable_def)
  have lw: "fst (login_worker healthy catalog ann_mistyped) = Failed ''Wrong Password''"
    by (simp add: login_worker_def FindOneDecode_def healthy_def catalog_def ann_def
          zero_user_def ann_mistyped_def)
  from H have 1: "timer_decides (\<lambda>r. GetMovies healthy r catalog)"
    and 2: "timer_decides (\<lambda>r. Login healthy r catalog (Some ann_login))" by blast+
  from H g have 3: "timer_decides (\<lambda>r. GetMoviesByGenre healthy r catalog ''Drama'')" by blast
  from H v have 4: "timer_decides (\<lambda>r. MakeMovies healthy r catalog (Some premiere))" by blast
  from H hp have 5: "timer_decides (\<lambda>r. RegisterUser healthy r catalog (Some cy))" by blast
  from H j gu fg have 6: "timer_decides (\<lambda>r. GetRecommendedMovies healthy r catalog ''id1'')"
    by blast
  from U fe have 7: "resp (GetMovies unreachable WorkerFirst catalog) =
      JSON 500 (ErrorBody ''connection reset'')" by blast
  from U fe g have 8: "resp (GetMoviesByGenre unreachable WorkerFirst catalog ''Drama'') =
      JSON 500 (ErrorBody ''connection reset'')" by blast
  from U hp' rw have "resp (RegisterUser unreachable WorkerFirst catalog (Some cy)) =
     JSON (if ''connection reset'' = ''User with this email already exists'' then 409 else 500)
       (ErrorBody ''connection reset'')" by blast
  then have 9: "resp (RegisterUser unreachable WorkerFirst catalog (Some cy)) =
     JSON 500 (ErrorBody ''connection reset'')" by simp
  from L lw have 10: "resp (Login healthy WorkerFirst catalog (Some ann_mistyped)) =
     JSON 401 (ErrorBody ''Wrong Password'')" by blast
  from U v' ie have 11: "resp (MakeMovies unreachable WorkerFirst catalog (Some premiere)) =
     JSON 500 (ErrorBody ''connection reset'')" by blast
  from U i vq ue have 12: "resp (AdminReviewUpdate unreachable catalog ''tt4'' (Some praise)) =
     JSON 500 (ErrorBody ''Failed to update movie'')" by blast
  from U j oe have 13: "resp (GetRecommendedMovies unreachable TimerFirst catalog ''id1'') =
     JSON 404 (ErrorBody ''User not found'')" by blast
  from S j gu' fg fe' have 14: "resp (GetRecommendedMovies ?slow WorkerFirst catalog ''id1'') =
      JSON 500 (ErrorBody ''connection reset'')" by blast
  from g i j v v' hp vq gu gu' fg fe fe' ie ue oe rw lw
    1 2 3 4 5 6 7 8 9 10 11 12 13 14
  show ?thesis by blast
qed

end
